theory Spec2Isabelle
  imports Complex_Main
begin

section \<open>Python values, exceptions and dictionaries\<close>

text \<open>
  The orchestration loop of \<^verbatim>\<open>src/routes/message_routes.py\<close> handles JSON values
  that the language model sends as tool arguments and that the handlers send back as
  tool results.  \<open>pyval\<close> is the Python value that \<^verbatim>\<open>json.loads\<close> produces: a
  dictionary is an association list (first binding wins, keys distinct in every value
  built here), a number is a rational (the literals \<^verbatim>\<open>NaN\<close> and \<^verbatim>\<open>Infinity\<close> are
  not represented).  \<open>PFmt t vs\<close> stands for the string an f-string renders from the
  template \<open>t\<close> and the values \<open>vs\<close>: every template of the source holds literal text,
  so the rendered string is never empty.
\<close>

datatype pyval =
    PNone
  | PBool bool
  | PNum rat
  | PStr string
  | PList "pyval list"
  | PDict "(string \<times> pyval) list"
  | PFmt string "pyval list"

type_synonym pydict = "(string \<times> pyval) list"

text \<open>
  Exceptions are values.  \<open>HTTPException c\<close> carries the status code; \<open>OtherError\<close> is
  any exception class that no \<^verbatim>\<open>except\<close> clause of the source names.
\<close>

datatype exn =
    HTTPException nat
  | JSONDecodeError
  | ValueError
  | StyleValidationError
  | UnsupportedAlgorithmError
  | InvalidInputFormatError
  | RecoverableToolCallError
  | IndexError
  | KeyError
  | TypeError
  | AttributeError
  | UnboundLocalError
  | DataError
  | OtherError string

text \<open>Python truthiness, as \<^verbatim>\<open>if x\<close> and \<^verbatim>\<open>not x\<close> read it.\<close>

fun truthy :: "pyval \<Rightarrow> bool" where
  "truthy PNone = False"
| "truthy (PBool b) = b"
| "truthy (PNum r) = (r \<noteq> 0)"
| "truthy (PStr s) = (s \<noteq> [])"
| "truthy (PList xs) = (xs \<noteq> [])"
| "truthy (PDict kvs) = (kvs \<noteq> [])"
| "truthy (PFmt t vs) = True"

text \<open>\<^verbatim>\<open>d.get(k)\<close> and \<^verbatim>\<open>d.get(k, default)\<close> on a dictionary.\<close>

definition dict_get :: "pydict \<Rightarrow> string \<Rightarrow> pyval" where
  "dict_get d k = (case map_of d k of None \<Rightarrow> PNone | Some v \<Rightarrow> v)"

definition dict_get_default :: "pydict \<Rightarrow> string \<Rightarrow> pyval \<Rightarrow> pyval" where
  "dict_get_default d k dflt = (case map_of d k of None \<Rightarrow> dflt | Some v \<Rightarrow> v)"

text \<open>\<^verbatim>\<open>d[k] = v\<close>: an existing key keeps its place, a new key goes last.\<close>

fun dict_set :: "pydict \<Rightarrow> string \<Rightarrow> pyval \<Rightarrow> pydict" where
  "dict_set [] k v = [(k, v)]"
| "dict_set ((k', v') # d) k v = (if k' = k then (k, v) # d else (k', v') # dict_set d k v)"

text \<open>
  \<^verbatim>\<open>tool_args.get(...)\<close> on the value \<^verbatim>\<open>json.loads\<close> returned: anything but a
  dictionary has no \<^verbatim>\<open>get\<close>.
\<close>

definition as_dict :: "pyval \<Rightarrow> exn + pydict" where
  "as_dict v = (case v of PDict d \<Rightarrow> Inr d | _ \<Rightarrow> Inl AttributeError)"

text \<open>
  A query argument bound to a text column or parameter: the driver takes \<^verbatim>\<open>None\<close>
  (SQL NULL) and \<^verbatim>\<open>str\<close>, and raises \<^verbatim>\<open>DataError\<close> on any other Python value.
\<close>

definition as_text :: "pyval \<Rightarrow> exn + string option" where
  "as_text v = (case v of PNone \<Rightarrow> Inr None | PStr s \<Rightarrow> Inr (Some s) | _ \<Rightarrow> Inl DataError)"

text \<open>\<^verbatim>\<open>x[0]\<close> and \<^verbatim>\<open>len(x)\<close>.\<close>

definition subscript0 :: "pyval \<Rightarrow> exn + pyval" where
  "subscript0 v =
     (case v of
        PList xs \<Rightarrow> (case xs of [] \<Rightarrow> Inl IndexError | x # _ \<Rightarrow> Inr x)
      | PStr s \<Rightarrow> (case s of [] \<Rightarrow> Inl IndexError | c # _ \<Rightarrow> Inr (PStr [c]))
      | PDict d \<Rightarrow> Inl KeyError
      | _ \<Rightarrow> Inl TypeError)"

definition py_len :: "pyval \<Rightarrow> exn + nat" where
  "py_len v =
     (case v of
        PList xs \<Rightarrow> Inr (length xs)
      | PStr s \<Rightarrow> Inr (length s)
      | PDict d \<Rightarrow> Inr (length d)
      | _ \<Rightarrow> Inl TypeError)"

text \<open>Iterating a value, as tuple unpacking and \<^verbatim>\<open>for\<close> do.\<close>

definition py_iter :: "pyval \<Rightarrow> exn + pyval list" where
  "py_iter v =
     (case v of
        PList xs \<Rightarrow> Inr xs
      | PStr s \<Rightarrow> Inr (map (\<lambda>c. PStr [c]) s)
      | PDict d \<Rightarrow> Inr (map (\<lambda>kv. PStr (fst kv)) d)
      | _ \<Rightarrow> Inl TypeError)"

text \<open>\<^verbatim>\<open>isinstance(x, (int, float))\<close>: a number, or a \<^verbatim>\<open>bool\<close> (a subclass of \<^verbatim>\<open>int\<close>).\<close>

definition as_number :: "pyval \<Rightarrow> rat option" where
  "as_number v =
     (case v of PNum r \<Rightarrow> Some r | PBool b \<Rightarrow> Some (if b then 1 else 0) | _ \<Rightarrow> None)"

text \<open>
  \<^verbatim>\<open>sep.join(xs)\<close> and \<^verbatim>\<open>s.strip()\<close>.  A \<open>char\<close> is a code point below 256; of
  these \<^verbatim>\<open>str.strip\<close> removes the ones \<^verbatim>\<open>str.isspace\<close> accepts: 9 to 13, 28 to 31,
  the space, 133 and 160.
\<close>

fun join :: "string \<Rightarrow> string list \<Rightarrow> string" where
  "join sep [] = []"
| "join sep [x] = x"
| "join sep (x # y # ys) = x @ sep @ join sep (y # ys)"

definition is_space :: "char \<Rightarrow> bool" where
  "is_space c =
     (c \<in> set [CHR 0x09, CHR 0x0A, CHR 0x0B, CHR 0x0C, CHR 0x0D, CHR 0x1C, CHR 0x1D, CHR 0x1E, CHR 0x1F,
               CHR '' '', CHR 0x85, CHR 0xA0])"

definition strip :: "string \<Rightarrow> string" where
  "strip s = rev (dropWhile is_space (rev (dropWhile is_space s)))"

text \<open>\<^verbatim>\<open>s.count(sub)\<close> for a non-empty \<open>sub\<close>: occurrences that do not overlap.\<close>

fun count_from :: "nat \<Rightarrow> string \<Rightarrow> string \<Rightarrow> nat" where
  "count_from skip sub [] = 0"
| "count_from skip sub (c # cs) =
     (if skip = 0 \<and> take (length sub) (c # cs) = sub
      then Suc (count_from (length sub - 1) sub cs)
      else count_from (skip - 1) sub cs)"

definition str_count :: "string \<Rightarrow> string \<Rightarrow> nat" where
  "str_count s sub = count_from 0 sub s"

text \<open>\<^verbatim>\<open>s.replace("_", ":")\<close> and \<^verbatim>\<open>s.lower()\<close> on ASCII letters.\<close>

definition replace_char :: "char \<Rightarrow> char \<Rightarrow> string \<Rightarrow> string" where
  "replace_char a b s = map (\<lambda>c. if c = a then b else c) s"

definition lower_char :: "char \<Rightarrow> char" where
  "lower_char c =
     (case map_of (zip ''ABCDEFGHIJKLMNOPQRSTUVWXYZ'' ''abcdefghijklmnopqrstuvwxyz'') c of
        None \<Rightarrow> c
      | Some l \<Rightarrow> l)"

definition lower :: "string \<Rightarrow> string" where
  "lower s = map lower_char s"

section \<open>The data model: messages, tables, the key-value store\<close>

text \<open>
  One tool invocation of an assistant turn: its identifier, the tool's name and the
  JSON text of the arguments, as the model client returns them.
\<close>

record tool_call =
  tc_id :: string
  tc_name :: string
  tc_arguments :: string

text \<open>
  The assistant message of a model response.  \<^verbatim>\<open>tool_calls\<close> is \<^verbatim>\<open>None\<close> or a
  list, as in the client library.
\<close>

record assistant_message =
  content :: pyval
  tool_calls :: "tool_call list option"

datatype message =
    SystemMessage pyval
  | UserMessage pyval
  | AssistantMessage assistant_message
  | ToolMessage string pydict

text \<open>A row of \<^verbatim>\<open>chat_completion_messages\<close>; rows are kept in insertion order.\<close>

record message_row =
  row_map_id :: string
  row_sender_id :: string
  message_json :: message

text \<open>
  A row of \<^verbatim>\<open>user_mundiai_maps\<close>: \<open>layers\<close> is the array column, \<open>None\<close> when it
  is NULL; \<open>soft_deleted\<close> says that \<^verbatim>\<open>soft_deleted_at\<close> is not NULL.
\<close>

record map_row =
  owner_uuid :: string
  soft_deleted :: bool
  layers :: "string list option"
  project_id :: string

text \<open>A row of \<^verbatim>\<open>map_layers\<close> (the columns the loop reads or writes).\<close>

record layer_row =
  layer_id :: string
  layer_owner_uuid :: string
  layer_name :: "string option"
  layer_type :: string
  s3_key :: "string option"

record style_row =
  style_id :: string
  style_layer_id :: string
  style_json :: pyval
  created_by :: string

text \<open>
  The calls the task makes to Redis and to the model client, and the
  \<^verbatim>\<open>kue.tool_call_started\<close> span events it emits, in the order it makes them.
\<close>

datatype event =
    RedisGet string
  | RedisSet string string nat
  | RedisDelete string
  | ChatCompletionsCreate "message list" "string list"
  | ToolCallStarted string
  | NotifyError

text \<open>
  The state the code works on: the Redis store (a key holds a value and the expiry it
  was set with, in seconds; time does not pass in this model, so a key stays until it
  is deleted), the tables of the application database, and the record of calls.
  \<open>limited_query\<close> is the local variable of that name of the running task, \<open>None\<close> while
  it is unbound: a Python local lives until the function returns, so what one tool call
  binds a later one can read.
\<close>

record world =
  redis :: "string \<Rightarrow> (string \<times> nat) option"
  user_mundiai_maps :: "string \<Rightarrow> map_row option"
  map_layers :: "layer_row list"
  chat_completion_messages :: "message_row list"
  project_postgres_connections :: "(string \<times> string) list"
  layer_styles :: "style_row list"
  map_layer_styles :: "(string \<times> string \<times> string) list"
  events :: "event list"
  limited_query :: "string option"

text \<open>The parameters of one background task: the map, the session's user, the user id.\<close>

record ctx =
  map_id :: string
  session_user_id :: string
  user_id :: string

record http_response =
  status_code :: nat
  response_text :: string
  response_json :: "pyval option"

record qgis_request =
  algorithm_id :: string
  qgis_inputs :: "(string \<times> pyval) list"
  output_presigned_put_urls :: "(string \<times> string) list"
  input_urls :: "(string \<times> string) list"

text \<open>
  The collaborators the code reaches through imports that are not part of the sources
  read here, each as the function of what the code passes to it; every one that can
  fail returns the exception on the left.  They may depend on the whole state, so two
  calls with the same arguments may answer differently.
  \<^item> \<open>json_loads\<close>: \<^verbatim>\<open>json.loads\<close>, \<open>None\<close> when it raises \<^verbatim>\<open>JSONDecodeError\<close>;
  \<^item> \<open>re_search_limit\<close>: the number captured by
    \<^verbatim>\<open>re.search(r"\bLIMIT\s+(\d+)\b", q, re.IGNORECASE)\<close>, \<open>None\<close> without a match;
  \<^item> \<open>get_tools\<close>: the geoprocessing tools, each a name and a description;
  \<^item> \<open>chat_completions_create\<close>: the model client, given the transcript and the names of
    the tools offered; it answers with the list \<^verbatim>\<open>response.choices\<close>;
  \<^item> \<open>postgis_probe\<close>: the validation and metadata queries against the user's PostGIS
    database, answering with the geometry type found, if any;
  \<^item> \<open>execute_duckdb_query\<close>: the query and its conversion to CSV text, with the row count;
  \<^item> \<open>validate_style\<close>: \<^verbatim>\<open>get_map_style_internal\<close> followed by
    \<^verbatim>\<open>verify_style_json_str\<close>;
  \<^item> \<open>download_from_openstreetmap\<close>: its result dictionary and the layer rows it stored;
  \<^item> \<open>postgres_fetch\<close>: the rows a query returns, each a list of column name and
    rendered value;
  \<^item> \<open>ingest_upload\<close>: the layer row that the ingestion of an uploaded file stores,
    given the file's name and content, or the exception it fails with.
\<close>

record env =
  json_loads :: "string \<Rightarrow> pyval option"
  re_search_limit :: "string \<Rightarrow> nat option"
  has_openstreetmap_api_key :: bool
  get_tools :: "(string \<times> string) list"
  generate_id :: "world \<Rightarrow> string \<Rightarrow> string"
  chat_completions_create :: "world \<Rightarrow> message list \<Rightarrow> string list \<Rightarrow> exn + assistant_message list"
  postgis_probe :: "world \<Rightarrow> string \<Rightarrow> pyval \<Rightarrow> exn + string option"
  generate_maplibre_layers :: "string \<Rightarrow> string \<Rightarrow> exn + pyval"
  execute_duckdb_query :: "world \<Rightarrow> pyval \<Rightarrow> string option \<Rightarrow> pyval \<Rightarrow> exn + string \<times> pyval"
  validate_style :: "world \<Rightarrow> string \<Rightarrow> pyval \<Rightarrow> pyval list \<Rightarrow> exn option"
  download_from_openstreetmap :: "world \<Rightarrow> string \<Rightarrow> pyval \<Rightarrow> pyval \<Rightarrow> pyval \<Rightarrow> exn + pydict \<times> layer_row list"
  postgres_fetch :: "world \<Rightarrow> string \<Rightarrow> string \<Rightarrow> exn + (string \<times> string) list list"
  generate_presigned_url :: "world \<Rightarrow> string \<Rightarrow> string \<Rightarrow> exn + string"
  qgis_post :: "world \<Rightarrow> qgis_request \<Rightarrow> exn + http_response"
  s3_get_object :: "world \<Rightarrow> string \<Rightarrow> exn + string"
  ingest_upload :: "world \<Rightarrow> string \<Rightarrow> string \<Rightarrow> exn + layer_row"
  get_map_description :: "world \<Rightarrow> string \<Rightarrow> exn + string"
  get_system_messages :: "message list \<Rightarrow> string \<Rightarrow> exn + pyval list"

subsection \<open>Redis\<close>

definition lock_key :: "string \<Rightarrow> string" where
  "lock_key m = ''map_lock:'' @ m"

definition cancelled_key :: "string \<Rightarrow> string" where
  "cancelled_key m = ''messages:'' @ m @ '':cancelled''"

definition redis_get :: "string \<Rightarrow> world \<Rightarrow> string option \<times> world" where
  "redis_get k w = (map_option fst (redis w k), w\<lparr>events := events w @ [RedisGet k]\<rparr>)"

definition redis_set :: "string \<Rightarrow> string \<Rightarrow> nat \<Rightarrow> world \<Rightarrow> world" where
  "redis_set k v ex w =
     w\<lparr>redis := (redis w)(k \<mapsto> (v, ex)), events := events w @ [RedisSet k v ex]\<rparr>"

definition redis_delete :: "string \<Rightarrow> world \<Rightarrow> world" where
  "redis_delete k w = w\<lparr>redis := (redis w)(k := None), events := events w @ [RedisDelete k]\<rparr>"

text \<open>\<^verbatim>\<open>if redis.get(key)\<close>: the key holds a non-empty string.\<close>

definition redis_truthy :: "string option \<Rightarrow> bool" where
  "redis_truthy v = (case v of None \<Rightarrow> False | Some s \<Rightarrow> s \<noteq> [])"

subsection \<open>The message log\<close>

text \<open>
  \<^verbatim>\<open>get_all_map_messages\<close>: 404 for a missing or soft-deleted map, 401 when the
  session's user is not the owner, else the map's messages in insertion order.
\<close>

definition get_all_map_messages :: "string \<Rightarrow> string \<Rightarrow> world \<Rightarrow> exn + message list" where
  "get_all_map_messages m session_user w =
     (case user_mundiai_maps w m of
        None \<Rightarrow> Inl (HTTPException 404)
      | Some map_result \<Rightarrow>
          if soft_deleted map_result then Inl (HTTPException 404)
          else if session_user \<noteq> owner_uuid map_result then Inl (HTTPException 401)
          else Inr (map message_json (filter (\<lambda>r. row_map_id r = m) (chat_completion_messages w))))"

text \<open>The transcript of a map, whoever asks: the rows \<open>get_all_map_messages\<close> reads.\<close>

definition map_messages :: "string \<Rightarrow> world \<Rightarrow> message list" where
  "map_messages m w = map message_json (filter (\<lambda>r. row_map_id r = m) (chat_completion_messages w))"

definition add_chat_completion_message :: "ctx \<Rightarrow> message \<Rightarrow> world \<Rightarrow> world" where
  "add_chat_completion_message c msg w =
     w\<lparr>chat_completion_messages := chat_completion_messages w @
        [\<lparr>row_map_id = map_id c, row_sender_id = user_id c, message_json = msg\<rparr>]\<rparr>"

text \<open>The tool message every handler appends for the invocation it answers.\<close>

definition reply :: "ctx \<Rightarrow> tool_call \<Rightarrow> pydict \<Rightarrow> world \<Rightarrow> world" where
  "reply c tc tool_result w = add_chat_completion_message c (ToolMessage (tc_id tc) tool_result) w"

definition error_result :: "pyval \<Rightarrow> pydict" where
  "error_result msg = [(''status'', PStr ''error''), (''error'', msg)]"

subsection \<open>Statements on the application database\<close>

text \<open>
  \<^verbatim>\<open>SELECT layer_id FROM map_layers WHERE layer_id = $1 AND owner_uuid = $2\<close>:
  whether a row comes back.  A NULL parameter matches no row.
\<close>

definition layer_exists :: "world \<Rightarrow> string option \<Rightarrow> string \<Rightarrow> bool" where
  "layer_exists w lid uid =
     (case lid of
        None \<Rightarrow> False
      | Some l \<Rightarrow> list_ex (\<lambda>r. layer_id r = l \<and> layer_owner_uuid r = uid) (map_layers w))"

text \<open>\<^verbatim>\<open>UPDATE map_layers SET name = $1 WHERE layer_id = $2\<close>.\<close>

definition update_layer_name :: "string option \<Rightarrow> string \<Rightarrow> world \<Rightarrow> world" where
  "update_layer_name new_name l w =
     w\<lparr>map_layers := map (\<lambda>r. if layer_id r = l then r\<lparr>layer_name := new_name\<rparr> else r) (map_layers w)\<rparr>"

text \<open>
  \<^verbatim>\<open>UPDATE user_mundiai_maps SET layers = CASE WHEN layers IS NULL THEN ARRAY[$1]
  ELSE array_append(layers, $1) END WHERE id = $2 AND (layers IS NULL OR NOT ($1 =
  ANY(layers)))\<close>.
\<close>

definition append_layer_to_map :: "string \<Rightarrow> string \<Rightarrow> world \<Rightarrow> world" where
  "append_layer_to_map l m w =
     (case user_mundiai_maps w m of
        None \<Rightarrow> w
      | Some row \<Rightarrow>
          (case layers row of
             None \<Rightarrow> w\<lparr>user_mundiai_maps := (user_mundiai_maps w)(m \<mapsto> row\<lparr>layers := Some [l]\<rparr>)\<rparr>
           | Some ls \<Rightarrow>
               if l \<in> set ls then w
               else w\<lparr>user_mundiai_maps := (user_mundiai_maps w)(m \<mapsto> row\<lparr>layers := Some (ls @ [l])\<rparr>)\<rparr>))"

text \<open>
  \<^verbatim>\<open>INSERT INTO map_layer_styles ... ON CONFLICT (map_id, layer_id) DO UPDATE SET
  style_id = $3\<close>.
\<close>

definition upsert_map_layer_style :: "string \<Rightarrow> string \<Rightarrow> string \<Rightarrow> world \<Rightarrow> world" where
  "upsert_map_layer_style m l s w =
     (if list_ex (\<lambda>(m', l', s'). m' = m \<and> l' = l) (map_layer_styles w)
      then w\<lparr>map_layer_styles :=
              map (\<lambda>(m', l', s'). if m' = m \<and> l' = l then (m', l', s) else (m', l', s')) (map_layer_styles w)\<rparr>
      else w\<lparr>map_layer_styles := map_layer_styles w @ [(m, l, s)]\<rparr>)"

section \<open>The tool handlers\<close>

text \<open>
  Each branch of the dispatch in \<^verbatim>\<open>process_chat_interaction_task\<close> is one function:
  it takes the parsed arguments and the state and returns the exception that escapes
  the branch, if any, with the state reached.  The application's own database
  connection, the tracer and the notifier of ephemeral actions are taken not to fail;
  a statement on the application database raises only when an argument does not bind.
\<close>

subsection \<open>\<^verbatim>\<open>add_layer_to_map\<close>\<close>

text \<open>
  The layer is looked up for the caller; a layer found is renamed and then appended to
  the map.  Neither statement is in a \<^verbatim>\<open>try\<close>: an identifier or a name that does
  not bind as text escapes as \<^verbatim>\<open>DataError\<close>.  The result of a successful attach
  carries its message under \<^verbatim>\<open>status\<close>.
\<close>

definition add_layer_to_map :: "ctx \<Rightarrow> tool_call \<Rightarrow> pyval \<Rightarrow> world \<Rightarrow> exn option \<times> world" where
  "add_layer_to_map c tc tool_args w =
     (case as_dict tool_args of
        Inl e \<Rightarrow> (Some e, w)
      | Inr args \<Rightarrow>
          let layer_id_to_add = dict_get args ''layer_id'';
              new_name = dict_get args ''new_name''
          in (case as_text layer_id_to_add of
                Inl e \<Rightarrow> (Some e, w)
              | Inr lid \<Rightarrow>
                  (case (if layer_exists w lid (user_id c) then lid else None) of
                     None \<Rightarrow>
                       (None, reply c tc
                          (error_result (PFmt ''Layer ID '{}' not found or you do not have permission to use it.''
                             [layer_id_to_add])) w)
                   | Some l \<Rightarrow>
                       (case as_text new_name of
                          Inl e \<Rightarrow> (Some e, w)
                        | Inr nm \<Rightarrow>
                            let w1 = update_layer_name nm l w;
                                w2 = append_layer_to_map l (map_id c) w1
                            in (None, reply c tc
                                  [(''status'', PFmt ''Layer '{}' (ID: {}) added to map '{}'.''
                                      [new_name, layer_id_to_add, PStr (map_id c)]),
                                   (''layer_id'', layer_id_to_add),
                                   (''name'', new_name)] w2)))))"

subsection \<open>\<^verbatim>\<open>set_active_style\<close>\<close>

text \<open>
  Both identifiers are truthy when the upsert runs, so each is a non-empty string or a
  value that does not bind; the upsert is not in a \<^verbatim>\<open>try\<close>.
\<close>

definition set_active_style :: "ctx \<Rightarrow> tool_call \<Rightarrow> pyval \<Rightarrow> world \<Rightarrow> exn option \<times> world" where
  "set_active_style c tc tool_args w =
     (case as_dict tool_args of
        Inl e \<Rightarrow> (Some e, w)
      | Inr args \<Rightarrow>
          let lid = dict_get args ''layer_id'';
              sid = dict_get args ''style_id''
          in if \<not> (truthy lid \<and> truthy sid)
             then (None, reply c tc
                    (error_result (PStr ''Missing required parameters (layer_id, or style_id).'')) w)
             else (case (lid, sid) of
                     (PStr l, PStr s) \<Rightarrow>
                       (None, reply c tc
                          [(''status'', PStr ''success''),
                           (''message'', PFmt ''Style {} set as active for layer {}, user can now see it'' [sid, lid]),
                           (''layer_id'', lid),
                           (''style_id'', sid)]
                          (upsert_map_layer_style (map_id c) l s w))
                   | _ \<Rightarrow> (Some DataError, w)))"

subsection \<open>\<^verbatim>\<open>create_layer_style\<close>\<close>

text \<open>
  The \<^verbatim>\<open>try\<close> block up to the \<^verbatim>\<open>INSERT\<close>: the layers parsed from the string
  argument, each given its \<^verbatim>\<open>source-layer\<close>, validated in the map's style, and the
  layer identifier bound as text.
\<close>

definition is_dict :: "pyval \<Rightarrow> bool" where
  "is_dict v = (case v of PDict d \<Rightarrow> True | _ \<Rightarrow> False)"

definition hashable :: "pyval \<Rightarrow> bool" where
  "hashable v = (case v of PList xs \<Rightarrow> False | PDict d \<Rightarrow> False | _ \<Rightarrow> True)"

definition set_source_layer :: "pyval \<Rightarrow> pyval" where
  "set_source_layer v =
     (case v of PDict d \<Rightarrow> PDict (dict_set d ''source-layer'' (PStr ''reprojectedfgb'')) | _ \<Rightarrow> v)"

definition checked_style_layers ::
    "env \<Rightarrow> ctx \<Rightarrow> pyval \<Rightarrow> pyval \<Rightarrow> world \<Rightarrow> exn + pyval list \<times> string" where
  "checked_style_layers env c lid maplibre_json_layers_str w =
     (case maplibre_json_layers_str of
        PStr s \<Rightarrow>
          (case json_loads env s of
             None \<Rightarrow> Inl JSONDecodeError
           | Some (PList ls) \<Rightarrow>
               if \<not> list_all is_dict ls then Inl ValueError
               else if \<not> hashable lid then Inl TypeError
               else (case validate_style env w (map_id c) lid (map set_source_layer ls) of
                       Some e \<Rightarrow> Inl e
                     | None \<Rightarrow>
                         (case lid of
                            PStr l \<Rightarrow> Inr (map set_source_layer ls, l)
                          | _ \<Rightarrow> Inl DataError))
           | Some _ \<Rightarrow> Inl ValueError)
      | _ \<Rightarrow> Inl TypeError)"

text \<open>
  The \<^verbatim>\<open>except\<close> clauses name \<^verbatim>\<open>JSONDecodeError\<close>, \<^verbatim>\<open>ValueError\<close> and
  \<^verbatim>\<open>StyleValidationError\<close>; any other exception of the block escapes.
\<close>

definition create_layer_style ::
    "env \<Rightarrow> ctx \<Rightarrow> tool_call \<Rightarrow> pyval \<Rightarrow> world \<Rightarrow> exn option \<times> world" where
  "create_layer_style env c tc tool_args w =
     (case as_dict tool_args of
        Inl e \<Rightarrow> (Some e, w)
      | Inr args \<Rightarrow>
          let lid = dict_get args ''layer_id'';
              maplibre_json_layers_str = dict_get args ''maplibre_json_layers_str''
          in if \<not> truthy lid \<or> \<not> truthy maplibre_json_layers_str
             then (None, reply c tc
                    (error_result (PStr ''Missing required parameters (layer_id or maplibre_json_layers_str).'')) w)
             else
               let sid = generate_id env w ''S''
               in (case checked_style_layers env c lid maplibre_json_layers_str w of
                     Inl JSONDecodeError \<Rightarrow>
                       (None, reply c tc
                          [(''status'', PStr ''error''), (''error'', PFmt ''Invalid JSON format: {}'' []),
                           (''layer_id'', lid)] w)
                   | Inl ValueError \<Rightarrow>
                       (None, reply c tc
                          [(''status'', PStr ''error''), (''error'', PFmt ''{}'' []), (''layer_id'', lid)] w)
                   | Inl StyleValidationError \<Rightarrow>
                       (None, reply c tc
                          [(''status'', PStr ''error''), (''error'', PFmt ''Style validation failed: {}'' []),
                           (''layer_id'', lid)] w)
                   | Inl e \<Rightarrow> (Some e, w)
                   | Inr (ls, l) \<Rightarrow>
                       (None, reply c tc
                          [(''status'', PStr ''success''), (''style_id'', PStr sid), (''layer_id'', lid)]
                          (w\<lparr>layer_styles := layer_styles w @
                               [\<lparr>style_id = sid, style_layer_id = l, style_json = PList ls,
                                 created_by = user_id c\<rparr>]\<rparr>))))"

subsection \<open>\<^verbatim>\<open>query_duckdb_sql\<close>\<close>

text \<open>
  \<^verbatim>\<open>tool_args.get("layer_ids", [None])[0]\<close> and the lookup of the layer come before
  the \<^verbatim>\<open>try\<close>; a layer that is not the caller's is answered with an error and
  \<^verbatim>\<open>continue\<close>.  Inside the \<^verbatim>\<open>try\<close>, \<^verbatim>\<open>HTTPException\<close> and every other
  exception become error results.
\<close>

definition query_duckdb_sql ::
    "env \<Rightarrow> ctx \<Rightarrow> tool_call \<Rightarrow> pyval \<Rightarrow> world \<Rightarrow> exn option \<times> world" where
  "query_duckdb_sql env c tc tool_args w =
     (case as_dict tool_args of
        Inl e \<Rightarrow> (Some e, w)
      | Inr args \<Rightarrow>
          (case subscript0 (dict_get_default args ''layer_ids'' (PList [PNone])) of
             Inl e \<Rightarrow> (Some e, w)
           | Inr lid \<Rightarrow>
               let sql_query = dict_get args ''sql_query'';
                   head_n_rows = dict_get_default args ''head_n_rows'' (PNum 20)
               in (case as_text lid of
                     Inl e \<Rightarrow> (Some e, w)
                   | Inr l \<Rightarrow>
                       if \<not> layer_exists w l (user_id c)
                       then (None, reply c tc
                              (error_result
                                 (PFmt ''Layer ID '{}' not found or you do not have permission to access it.'' [lid])) w)
                       else
                         (case execute_duckdb_query env w sql_query l head_n_rows of
                            Inl (HTTPException code) \<Rightarrow>
                              (None, reply c tc (error_result (PFmt ''DuckDB query error: {}'' [])) w)
                          | Inl e \<Rightarrow>
                              (None, reply c tc (error_result (PFmt ''Error executing SQL query: {}'' [])) w)
                          | Inr (result_text, row_count) \<Rightarrow>
                              if length result_text > 25000
                              then (None, reply c tc
                                     (error_result
                                        (PFmt ''DuckDB CSV result too large: {} characters exceeds 25,000 character limit, try reducing columns or head_n_rows''
                                           [PNum (of_nat (length result_text))])) w)
                              else (None, reply c tc
                                     [(''status'', PStr ''success''), (''result'', PStr result_text),
                                      (''row_count'', row_count), (''query'', sql_query)] w)))))"

subsection \<open>\<^verbatim>\<open>query_postgis_database\<close>\<close>

text \<open>
  \<^verbatim>\<open>SELECT connection_uri FROM project_postgres_connections WHERE id = $1 AND
  user_id = $2\<close>: whether a row comes back.
\<close>

definition connection_exists :: "world \<Rightarrow> string \<Rightarrow> string \<Rightarrow> bool" where
  "connection_exists w cid uid = ((cid, uid) \<in> set (project_postgres_connections w))"

text \<open>The text the handler renders from the rows of a query.\<close>

definition format_rows :: "(string \<times> string) list list \<Rightarrow> string" where
  "format_rows result_data =
     (case result_data of
        [] \<Rightarrow> ''No results''
      | [[(k, v)]] \<Rightarrow> ''Query result: '' @ v
      | r # rs \<Rightarrow>
          let headers = map fst r
          in join [CHR 0x0A]
               (join [CHR 0x09] headers #
                map (\<lambda>row. join [CHR 0x09]
                       (map (\<lambda>h. case map_of row h of None \<Rightarrow> [] | Some v \<Rightarrow> v) headers))
                    (r # rs)))"

text \<open>
  The two rejections of the \<^verbatim>\<open>LIMIT\<close> clause append their error result and
  \<^verbatim>\<open>continue\<close>.  Every exception of the \<^verbatim>\<open>try\<close> block is caught, and the
  handler of the \<^verbatim>\<open>except\<close> clause reads \<^verbatim>\<open>limited_query\<close>.  When
  \<^verbatim>\<open>sql_query.strip()\<close> itself raised (the query is not a string), the name holds
  what an earlier \<^verbatim>\<open>query_postgis_database\<close> call of the task bound it to, and the
  error result reports that query; when no call has bound it, \<^verbatim>\<open>UnboundLocalError\<close>
  escapes.
\<close>

definition query_postgis_database ::
    "env \<Rightarrow> ctx \<Rightarrow> tool_call \<Rightarrow> pyval \<Rightarrow> world \<Rightarrow> exn option \<times> world" where
  "query_postgis_database env c tc tool_args w =
     (case as_dict tool_args of
        Inl e \<Rightarrow> (Some e, w)
      | Inr args \<Rightarrow>
          let postgis_connection_id = dict_get args ''postgis_connection_id'';
              sql_query = dict_get args ''sql_query''
          in if \<not> truthy postgis_connection_id \<or> \<not> truthy sql_query
             then (None, reply c tc
                    (error_result (PStr ''Missing required parameters (postgis_connection_id or sql_query)'')) w)
             else
               (case postgis_connection_id of
                  PStr cid \<Rightarrow>
                    if \<not> connection_exists w cid (user_id c)
                    then (None, reply c tc
                           (error_result
                              (PFmt ''PostGIS connection '{}' not found or you do not have access to it.''
                                 [postgis_connection_id])) w)
                    else
                      (case sql_query of
                         PStr q \<Rightarrow>
                           let stripped = strip q;
                               w = w\<lparr>limited_query := Some stripped\<rparr>
                           in (case re_search_limit env stripped of
                                 None \<Rightarrow>
                                   (None, reply c tc
                                      (error_result
                                         (PStr ''Query must include a LIMIT clause with a value less than 1000'')) w)
                               | Some limit_value \<Rightarrow>
                                   if limit_value > 1000
                                   then (None, reply c tc
                                          (error_result
                                             (PFmt ''LIMIT value {} exceeds maximum allowed limit of 1000''
                                                [PNum (of_nat limit_value)])) w)
                                   else
                                     (case postgres_fetch env w cid stripped of
                                        Inl e \<Rightarrow>
                                          (None, reply c tc
                                             [(''status'', PStr ''error''),
                                              (''error'', PFmt ''PostgreSQL query error: {}'' []),
                                              (''query'', PStr stripped)] w)
                                      | Inr rows \<Rightarrow>
                                          if rows = []
                                          then (None, reply c tc
                                                 [(''status'', PStr ''success''),
                                                  (''message'', PStr ''Query executed successfully but returned no rows''),
                                                  (''row_count'', PNum 0),
                                                  (''query'', PStr stripped)] w)
                                          else if length (format_rows rows) > 25000
                                          then (None, reply c tc
                                                 (error_result
                                                    (PFmt ''Query result too large: {} characters exceeds 25,000 character limit. Try reducing the number of columns or rows.''
                                                       [PNum (of_nat (length (format_rows rows)))])) w)
                                          else (None, reply c tc
                                                 [(''status'', PStr ''success''),
                                                  (''result'', PStr (format_rows rows)),
                                                  (''row_count'', PNum (of_nat (length rows))),
                                                  (''query'', PStr stripped)] w)))
                       | _ \<Rightarrow>
                           (case limited_query w of
                              None \<Rightarrow> (Some UnboundLocalError, w)
                            | Some stale \<Rightarrow>
                                (None, reply c tc
                                   [(''status'', PStr ''error''),
                                    (''error'', PFmt ''PostgreSQL query error: {}'' []),
                                    (''query'', PStr stale)] w)))
                | _ \<Rightarrow> (Some DataError, w)))"

subsection \<open>\<^verbatim>\<open>zoom_to_bounds\<close>\<close>

text \<open>The validation inside the \<^verbatim>\<open>try\<close> block: the exception it raises, if any.\<close>

definition check_bounds :: "pyval \<Rightarrow> exn option" where
  "check_bounds bounds =
     (case py_iter bounds of
        Inl e \<Rightarrow> Some e
      | Inr xs \<Rightarrow>
          (case xs of
             [west, south, east, north] \<Rightarrow>
               (case (as_number west, as_number south, as_number east, as_number north) of
                  (Some x0, Some y0, Some x1, Some y1) \<Rightarrow>
                    if x0 \<ge> x1 \<or> y0 \<ge> y1 then Some ValueError
                    else if \<not> (- 180 \<le> x0 \<and> x0 \<le> 180 \<and> - 180 \<le> x1 \<and> x1 \<le> 180 \<and>
                                 - 90 \<le> y0 \<and> y0 \<le> 90 \<and> - 90 \<le> y1 \<and> y1 \<le> 90)
                    then Some ValueError
                    else None
                | _ \<Rightarrow> Some ValueError)
           | _ \<Rightarrow> Some ValueError))"

definition invalid_bounds :: pydict where
  "invalid_bounds =
     error_result (PStr ''Invalid bounds. Must be an array of 4 numbers [west, south, east, north]'')"

text \<open>
  \<^verbatim>\<open>not bounds or len(bounds) != 4\<close> is evaluated before the \<^verbatim>\<open>try\<close>: a truthy
  value without a length raises \<^verbatim>\<open>TypeError\<close> there.
\<close>

definition zoom_to_bounds :: "ctx \<Rightarrow> tool_call \<Rightarrow> pyval \<Rightarrow> world \<Rightarrow> exn option \<times> world" where
  "zoom_to_bounds c tc tool_args w =
     (case as_dict tool_args of
        Inl e \<Rightarrow> (Some e, w)
      | Inr args \<Rightarrow>
          let bounds = dict_get args ''bounds'';
              description = dict_get_default args ''zoom_description'' (PStr [])
          in if \<not> truthy bounds then (None, reply c tc invalid_bounds w)
             else
               (case py_len bounds of
                  Inl e \<Rightarrow> (Some e, w)
                | Inr n \<Rightarrow>
                    if n \<noteq> 4 then (None, reply c tc invalid_bounds w)
                    else
                      (case check_bounds bounds of
                         Some ValueError \<Rightarrow> (None, reply c tc (error_result (PFmt ''{}'' [])) w)
                       | Some e \<Rightarrow>
                           (None, reply c tc (error_result (PFmt ''Error zooming to bounds: {}'' [])) w)
                       | None \<Rightarrow>
                           (None, reply c tc [(''status'', PStr ''success''), (''bounds'', bounds)] w))))"

subsection \<open>\<^verbatim>\<open>download_from_openstreetmap\<close>\<close>

text \<open>\<^verbatim>\<open>x[k]\<close> for a string key, and the comprehension \<^verbatim>\<open>[x[k] for x in xs]\<close>.\<close>

definition item :: "pyval \<Rightarrow> string \<Rightarrow> exn + pyval" where
  "item v k =
     (case v of
        PDict d \<Rightarrow> (case map_of d k of None \<Rightarrow> Inl KeyError | Some x \<Rightarrow> Inr x)
      | _ \<Rightarrow> Inl TypeError)"

fun items :: "pyval list \<Rightarrow> string \<Rightarrow> exn + pyval list" where
  "items [] k = Inr []"
| "items (x # xs) k =
     (case item x k of
        Inl e \<Rightarrow> Inl e
      | Inr v \<Rightarrow> (case items xs k of Inl e \<Rightarrow> Inl e | Inr vs \<Rightarrow> Inr (v # vs)))"

definition is_str :: "pyval \<Rightarrow> bool" where
  "is_str v = (case v of PStr s \<Rightarrow> True | PFmt t vs \<Rightarrow> True | _ \<Rightarrow> False)"

text \<open>
  The instructions added to a successful download: the names and the identifiers of
  the uploaded layers, the identifiers joined as strings.
\<close>

definition kue_instructions :: "pyval \<Rightarrow> pyval \<Rightarrow> exn + pyval" where
  "kue_instructions uploaded_layers new_layer_name =
     (case py_iter uploaded_layers of
        Inl e \<Rightarrow> Inl e
      | Inr ls \<Rightarrow>
          (case items ls ''geometry_type'' of
             Inl e \<Rightarrow> Inl e
           | Inr geometry_types \<Rightarrow>
               (case items ls ''layer_id'' of
                  Inl e \<Rightarrow> Inl e
                | Inr layer_ids \<Rightarrow>
                    if list_all is_str layer_ids
                    then Inr (PFmt ''New layers available: {} (IDs: {}), all currently invisible. To make any of these visible to the user on their map, use add_layer_to_map with the layer_id and a descriptive new_name.''
                               [PList (map (\<lambda>g. PFmt ''{}_{}'' [new_layer_name, g]) geometry_types),
                                PList layer_ids])
                    else Inl TypeError)))"

text \<open>
  The download is in a \<^verbatim>\<open>try\<close> that catches everything; the instructions are
  added after it, outside.
\<close>

definition download_from_openstreetmap_tool ::
    "env \<Rightarrow> ctx \<Rightarrow> tool_call \<Rightarrow> pyval \<Rightarrow> world \<Rightarrow> exn option \<times> world" where
  "download_from_openstreetmap_tool env c tc tool_args w =
     (case as_dict tool_args of
        Inl e \<Rightarrow> (Some e, w)
      | Inr args \<Rightarrow>
          let tags = dict_get args ''tags'';
              bbox = dict_get args ''bbox'';
              new_layer_name = dict_get args ''new_layer_name''
          in (case (if \<not> (truthy tags \<and> truthy bbox \<and> truthy new_layer_name)
                    then (error_result (PStr ''Missing required parameters for OpenStreetMap download.''), w)
                    else (case download_from_openstreetmap env w (map_id c) bbox tags new_layer_name of
                            Inl e \<Rightarrow>
                              (error_result (PFmt ''Error downloading from OpenStreetMap: {}'' []), w)
                          | Inr (r, rows) \<Rightarrow> (r, w\<lparr>map_layers := map_layers w @ rows\<rparr>))) of
                (tool_result, w1) \<Rightarrow>
                  if dict_get tool_result ''status'' = PStr ''success''
                     \<and> truthy (dict_get tool_result ''uploaded_layers'')
                  then (case kue_instructions (dict_get tool_result ''uploaded_layers'') new_layer_name of
                          Inl e \<Rightarrow> (Some e, w1)
                        | Inr instructions \<Rightarrow>
                            (None, reply c tc (dict_set tool_result ''kue_instructions'' instructions) w1))
                  else (None, reply c tc tool_result w1)))"

subsection \<open>\<^verbatim>\<open>new_layer_from_postgis\<close>\<close>

text \<open>
  The \<^verbatim>\<open>try\<close> block: the probe of the user's database, the new layer row, its
  default style when a geometry type was found, and the layer appended to the map.
\<close>

definition create_postgis_layer ::
    "env \<Rightarrow> ctx \<Rightarrow> string \<Rightarrow> pyval \<Rightarrow> pyval \<Rightarrow> world \<Rightarrow> exn + string \<times> world" where
  "create_postgis_layer env c cid query layer_name_arg w =
     (case postgis_probe env w cid query of
        Inl e \<Rightarrow> Inl e
      | Inr geometry_type \<Rightarrow>
          let lid = generate_id env w ''L'';
              maplibre_layers =
                (case geometry_type of
                   None \<Rightarrow> PNone
                 | Some g \<Rightarrow>
                     if g = [] then PNone
                     else (case generate_maplibre_layers env lid g of Inl e \<Rightarrow> PNone | Inr v \<Rightarrow> v))
          in (case as_text layer_name_arg of
                Inl e \<Rightarrow> Inl e
              | Inr nm \<Rightarrow>
                  (case query of
                     PStr q \<Rightarrow>
                       let w1 = w\<lparr>map_layers := map_layers w @
                                  [\<lparr>layer_id = lid, layer_owner_uuid = user_id c, layer_name = nm,
                                    layer_type = ''postgis'', s3_key = None\<rparr>]\<rparr>;
                           w2 = (if truthy maplibre_layers
                                 then let sid = generate_id env w1 ''S''
                                      in w1\<lparr>layer_styles := layer_styles w1 @
                                              [\<lparr>style_id = sid, style_layer_id = lid,
                                                style_json = maplibre_layers, created_by = user_id c\<rparr>],
                                            map_layer_styles := map_layer_styles w1 @ [(map_id c, lid, sid)]\<rparr>
                                 else w1)
                       in Inr (lid, append_layer_to_map lid (map_id c) w2)
                   | _ \<Rightarrow> Inl DataError)))"

text \<open>
  The lookup of the connection is before the \<^verbatim>\<open>try\<close>; the \<^verbatim>\<open>try\<close> catches
  everything.
\<close>

definition new_layer_from_postgis ::
    "env \<Rightarrow> ctx \<Rightarrow> tool_call \<Rightarrow> pyval \<Rightarrow> world \<Rightarrow> exn option \<times> world" where
  "new_layer_from_postgis env c tc tool_args w =
     (case as_dict tool_args of
        Inl e \<Rightarrow> (Some e, w)
      | Inr args \<Rightarrow>
          let postgis_connection_id = dict_get args ''postgis_connection_id'';
              query = dict_get args ''query'';
              layer_name_arg = dict_get args ''layer_name''
          in if \<not> truthy postgis_connection_id \<or> \<not> truthy query
             then (None, reply c tc
                    (error_result (PStr ''Missing required parameters (postgis_connection_id or query).'')) w)
             else
               (case postgis_connection_id of
                  PStr cid \<Rightarrow>
                    if \<not> connection_exists w cid (user_id c)
                    then (None, reply c tc
                           (error_result
                              (PFmt ''PostGIS connection '{}' not found or you do not have access to it.''
                                 [postgis_connection_id])) w)
                    else
                      (case create_postgis_layer env c cid query layer_name_arg w of
                         Inl e \<Rightarrow>
                           (None, reply c tc (error_result (PFmt ''Query validation failed: {}'' [])) w)
                       | Inr (lid, w1) \<Rightarrow>
                           (None, reply c tc
                              [(''status'', PStr ''success''),
                               (''message'', PFmt ''PostGIS layer created successfully with ID: {} and added to map'' [PStr lid]),
                               (''layer_id'', PStr lid),
                               (''query'', query),
                               (''added_to_map'', PBool True)] w1))
                | _ \<Rightarrow> (Some DataError, w)))"

section \<open>The geoprocessing bridge\<close>

text \<open>
  \<^verbatim>\<open>is_layer_id(s)\<close>: \<^verbatim>\<open>isinstance(s, str) and s[0] == "L" and len(s) == 12\<close>; the
  empty string raises at \<^verbatim>\<open>s[0]\<close>.
\<close>

definition is_layer_id :: "pyval \<Rightarrow> exn + bool" where
  "is_layer_id s =
     (case s of
        PStr t \<Rightarrow> (case t of [] \<Rightarrow> Inl IndexError | ch # _ \<Rightarrow> Inr (ch = CHR ''L'' \<and> length t = 12))
      | _ \<Rightarrow> Inr False)"

text \<open>
  \<^verbatim>\<open>SELECT s3_key FROM map_layers WHERE layer_id = $1 AND owner_uuid = $2\<close>, and the
  test \<^verbatim>\<open>not layer_data or not layer_data["s3_key"]\<close>: the key, when there is one.
\<close>

definition layer_s3_key :: "world \<Rightarrow> string \<Rightarrow> string \<Rightarrow> string option" where
  "layer_s3_key w l uid =
     (case find (\<lambda>r. layer_id r = l \<and> layer_owner_uuid r = uid) (map_layers w) of
        None \<Rightarrow> None
      | Some r \<Rightarrow> (case s3_key r of None \<Rightarrow> None | Some k \<Rightarrow> if k = [] then None else Some k))"

text \<open>
  The loop over \<^verbatim>\<open>mapped_args.items()\<close>: a layer identifier becomes a pre-signed read
  URL under \<open>input_urls\<close>, any other value a string under \<open>input_params\<close>.
\<close>

fun resolve_inputs ::
    "env \<Rightarrow> world \<Rightarrow> string \<Rightarrow> pydict \<Rightarrow> exn + (string \<times> pyval) list \<times> (string \<times> string) list" where
  "resolve_inputs env w uid [] = Inr ([], [])"
| "resolve_inputs env w uid ((key, val) # rest) =
     (if key = ''OUTPUT'' then resolve_inputs env w uid rest
      else
        (case is_layer_id val of
           Inl e \<Rightarrow> Inl e
         | Inr True \<Rightarrow>
             (case layer_s3_key w (case val of PStr t \<Rightarrow> t | _ \<Rightarrow> []) uid of
                None \<Rightarrow> Inl RecoverableToolCallError
              | Some k \<Rightarrow>
                  (case generate_presigned_url env w ''get_object'' k of
                     Inl e \<Rightarrow> Inl e
                   | Inr presigned_url \<Rightarrow>
                       (case resolve_inputs env w uid rest of
                          Inl e \<Rightarrow> Inl e
                        | Inr (input_params, urls) \<Rightarrow> Inr (input_params, (key, presigned_url) # urls))))
         | Inr False \<Rightarrow>
             (case resolve_inputs env w uid rest of
                Inl e \<Rightarrow> Inl e
              | Inr (input_params, urls) \<Rightarrow> Inr ((key, PFmt ''{}'' [val]) # input_params, urls))))"

record output_layer_mapping =
  out_layer_id :: string
  out_s3_key :: string
  out_layer_type :: string
  out_file_extension :: string

text \<open>
  Modelled from the spec: \<^verbatim>\<open>internal_upload_layer\<close> of
  \<^verbatim>\<open>src/routes/postgres_routes.py\<close>, which is not among the sources read here.  The
  spec has a job's output run "through the same ingestion path used for direct
  uploads, producing a new GeneratedResource": the call either fails and stores
  nothing, or stores one new layer row and, as \<^verbatim>\<open>add_layer_to_map=True\<close> asks, appends
  the layer to the map; it returns the layer's identifier.
\<close>

definition internal_upload_layer ::
    "env \<Rightarrow> ctx \<Rightarrow> string \<Rightarrow> string \<Rightarrow> bool \<Rightarrow> world \<Rightarrow> (exn + string) \<times> world" where
  "internal_upload_layer env c filename file_content add_to_map w =
     (case ingest_upload env w filename file_content of
        Inl e \<Rightarrow> (Inl e, w)
      | Inr row \<Rightarrow>
          let w1 = w\<lparr>map_layers := map_layers w @ [row]\<rparr>
          in (Inr (layer_id row),
              if add_to_map then append_layer_to_map (layer_id row) (map_id c) w1 else w1))"

text \<open>\<^verbatim>\<open>k in v\<close> for a string \<open>k\<close>, and \<^verbatim>\<open>sub in s\<close> on strings.\<close>

fun is_substring :: "string \<Rightarrow> string \<Rightarrow> bool" where
  "is_substring sub [] = (sub = [])"
| "is_substring sub (ch # cs) = (take (length sub) (ch # cs) = sub \<or> is_substring sub cs)"

definition contains_key :: "pyval \<Rightarrow> string \<Rightarrow> exn + bool" where
  "contains_key v k =
     (case v of
        PDict d \<Rightarrow> Inr (map_of d k \<noteq> None)
      | PList xs \<Rightarrow> Inr (PStr k \<in> set xs)
      | PStr s \<Rightarrow> Inr (is_substring k s)
      | _ \<Rightarrow> Inl TypeError)"

text \<open>
  \<^verbatim>\<open>param_name not in upload_results or not upload_results[param_name]["uploaded"]\<close>,
  negated: the output is confirmed uploaded.
\<close>

definition output_uploaded :: "pyval \<Rightarrow> string \<Rightarrow> exn + bool" where
  "output_uploaded upload_results param_name =
     (case contains_key upload_results param_name of
        Inl e \<Rightarrow> Inl e
      | Inr False \<Rightarrow> Inr False
      | Inr True \<Rightarrow>
          (case upload_results of
             PDict d \<Rightarrow>
               (case item (dict_get d param_name) ''uploaded'' of
                  Inl e \<Rightarrow> Inl e
                | Inr v \<Rightarrow> Inr (truthy v))
           | _ \<Rightarrow> Inl TypeError))"

text \<open>The first declared output that is not confirmed uploaded, if there is one.\<close>

fun first_not_uploaded :: "pyval \<Rightarrow> string list \<Rightarrow> exn + string option" where
  "first_not_uploaded upload_results [] = Inr None"
| "first_not_uploaded upload_results (param_name # rest) =
     (case output_uploaded upload_results param_name of
        Inl e \<Rightarrow> Inl e
      | Inr False \<Rightarrow> Inr (Some param_name)
      | Inr True \<Rightarrow> first_not_uploaded upload_results rest)"

text \<open>
  The loop that creates the layers: for each declared output the file is read back
  from storage and ingested.
\<close>

fun create_layers ::
    "env \<Rightarrow> ctx \<Rightarrow> (string \<times> output_layer_mapping) list \<Rightarrow> world \<Rightarrow> (exn + pyval list) \<times> world" where
  "create_layers env c [] w = (Inr [], w)"
| "create_layers env c ((param_name, layer_info) # rest) w =
     (case s3_get_object env w (out_s3_key layer_info) of
        Inl e \<Rightarrow> (Inl e, w)
      | Inr file_content \<Rightarrow>
          let filename = out_layer_id layer_info @ out_file_extension layer_info
          in (case internal_upload_layer env c filename file_content True w of
                (Inl e, w1) \<Rightarrow> (Inl e, w1)
              | (Inr new_id, w1) \<Rightarrow>
                  (case create_layers env c rest w1 of
                     (Inl e, w2) \<Rightarrow> (Inl e, w2)
                   | (Inr created, w2) \<Rightarrow>
                       (Inr (PDict [(''param_name'', PStr param_name), (''layer_id'', PStr new_id),
                                    (''layer_name'', PStr filename),
                                    (''layer_type'', PStr (out_layer_type layer_info))] # created), w2))))"

text \<open>
  What the \<^verbatim>\<open>try\<close> block of \<^verbatim>\<open>run_geoprocessing_tool\<close> prepares before it calls the
  remote service: the request and the mapping of the declared outputs (the source
  declares one, \<^verbatim>\<open>OUTPUT\<close>).
\<close>

definition prepare_request ::
    "env \<Rightarrow> ctx \<Rightarrow> string \<Rightarrow> string \<Rightarrow> pydict \<Rightarrow> world \<Rightarrow>
       exn + qgis_request \<times> (string \<times> output_layer_mapping) list" where
  "prepare_request env c algorithm description mapped_args w =
     (case resolve_inputs env w (user_id c) mapped_args of
        Inl e \<Rightarrow> Inl e
      | Inr (input_params, urls) \<Rightarrow>
          (case user_mundiai_maps w (map_id c) of
             None \<Rightarrow> Inl TypeError
           | Some map_data \<Rightarrow>
               let output_layer_id = generate_id env w ''L'';
                   tool_description = lower description;
                   is_vector = (str_count tool_description ''vector'' > str_count tool_description ''raster'');
                   file_extension = (if is_vector then ''.fgb'' else ''.tif'');
                   ltype = (if is_vector then ''vector'' else ''raster'');
                   output_s3_key = ''uploads/'' @ user_id c @ ''/'' @ project_id map_data @ ''/''
                                     @ output_layer_id @ file_extension
               in (case generate_presigned_url env w ''put_object'' output_s3_key of
                     Inl e \<Rightarrow> Inl e
                   | Inr output_presigned_url \<Rightarrow>
                       Inr (\<lparr>algorithm_id = algorithm, qgis_inputs = input_params,
                              output_presigned_put_urls = [(''OUTPUT'', output_presigned_url)],
                              input_urls = urls\<rparr>,
                            [(''OUTPUT'', \<lparr>out_layer_id = output_layer_id, out_s3_key = output_s3_key,
                                            out_layer_type = ltype, out_file_extension = file_extension\<rparr>)]))))"

text \<open>\<^verbatim>\<open>qgis_result.get("upload_results", {})\<close>.\<close>

definition upload_results_of :: "pyval \<Rightarrow> exn + pyval" where
  "upload_results_of qgis_result =
     (case qgis_result of
        PDict d \<Rightarrow> Inr (dict_get_default d ''upload_results'' (PDict []))
      | _ \<Rightarrow> Inl AttributeError)"

text \<open>The part of the \<^verbatim>\<open>try\<close> block that follows the answer of the remote service.\<close>

definition after_response ::
    "env \<Rightarrow> ctx \<Rightarrow> string \<Rightarrow> string \<Rightarrow> (string \<times> output_layer_mapping) list \<Rightarrow> http_response \<Rightarrow>
       world \<Rightarrow> (exn + pydict) \<times> world" where
  "after_response env c function_name algorithm output_layer_mappings response w =
     (if status_code response \<noteq> 200
      then (Inr [(''status'', PStr ''error''),
                 (''error'', PFmt ''QGIS processing failed: {} - {}''
                    [PNum (of_nat (status_code response)), PStr (response_text response)]),
                 (''algorithm_id'', PStr algorithm)], w)
      else
        (case response_json response of
           None \<Rightarrow> (Inl JSONDecodeError, w)
         | Some qgis_result \<Rightarrow>
             (case upload_results_of qgis_result of
                Inl e \<Rightarrow> (Inl e, w)
              | Inr upload_results \<Rightarrow>
                  (case first_not_uploaded upload_results (map fst output_layer_mappings) of
                     Inl e \<Rightarrow> (Inl e, w)
                   | Inr (Some param_name) \<Rightarrow>
                       (Inr [(''status'', PStr ''error''),
                             (''error'', PFmt ''QGIS processing completed but output file {} was not uploaded successfully''
                                [PStr param_name]),
                             (''qgis_result'', qgis_result)], w)
                   | Inr None \<Rightarrow>
                       (case create_layers env c output_layer_mappings w of
                          (Inl e, w1) \<Rightarrow> (Inl e, w1)
                        | (Inr created_layers, w1) \<Rightarrow>
                            (Inr [(''status'', PStr ''success''),
                                  (''message'', PFmt ''{} completed successfully'' [PStr function_name]),
                                  (''algorithm_id'', PStr algorithm),
                                  (''qgis_result'', qgis_result),
                                  (''created_layers'', PList created_layers)], w1))))))"

text \<open>The whole \<^verbatim>\<open>try\<close> block, before its \<^verbatim>\<open>except\<close> clauses.\<close>

definition geoprocessing_body ::
    "env \<Rightarrow> ctx \<Rightarrow> string \<Rightarrow> string \<Rightarrow> string \<Rightarrow> pydict \<Rightarrow> world \<Rightarrow> (exn + pydict) \<times> world" where
  "geoprocessing_body env c function_name algorithm description mapped_args w =
     (case prepare_request env c algorithm description mapped_args w of
        Inl e \<Rightarrow> (Inl e, w)
      | Inr (request, output_layer_mappings) \<Rightarrow>
          (case qgis_post env w request of
             Inl e \<Rightarrow> (Inl e, w)
           | Inr response \<Rightarrow>
               after_response env c function_name algorithm output_layer_mappings response w))"

text \<open>The three \<^verbatim>\<open>except\<close> clauses: every exception becomes an error result.\<close>

definition geoprocessing_error :: "string \<Rightarrow> exn \<Rightarrow> pydict" where
  "geoprocessing_error algorithm e =
     (case e of
        UnsupportedAlgorithmError \<Rightarrow>
          [(''status'', PStr ''error''), (''error'', PFmt ''Unsupported algorithm parameter: {}'' [])]
      | InvalidInputFormatError \<Rightarrow>
          [(''status'', PStr ''error''), (''error'', PFmt ''Invalid input format: {}'' [])]
      | _ \<Rightarrow>
          [(''status'', PStr ''error''),
           (''error'', PFmt (''Unexpected error running geoprocessing: '' @ [CHR 0x22] @ ''{}'' @ [CHR 0x22]
                              @ '', this is likely a Mundi bug.'') []),
           (''algorithm_id'', PStr algorithm)])"

text \<open>
  \<^verbatim>\<open>json.loads\<close>, the search for the tool's definition and the copy of the
  arguments come before the \<^verbatim>\<open>try\<close>.
\<close>

definition run_geoprocessing_tool ::
    "env \<Rightarrow> ctx \<Rightarrow> tool_call \<Rightarrow> world \<Rightarrow> (exn + pydict) \<times> world" where
  "run_geoprocessing_tool env c tc w =
     (let function_name = tc_name tc
      in (case json_loads env (tc_arguments tc) of
            None \<Rightarrow> (Inl JSONDecodeError, w)
          | Some tool_args \<Rightarrow>
              (case find (\<lambda>tool. fst tool = function_name) (get_tools env) of
                 None \<Rightarrow> (Inl UnboundLocalError, w)
               | Some tool_def \<Rightarrow>
                   let algorithm = replace_char (CHR ''_'') (CHR '':'') (fst tool_def)
                   in (case tool_args of
                         PDict d \<Rightarrow>
                           let mapped_args =
                                 dict_set (dict_set d ''map_id'' (PStr (map_id c))) ''user_uuid'' (PStr (user_id c))
                           in (case geoprocessing_body env c function_name algorithm (snd tool_def) mapped_args w of
                                 (Inl e, w1) \<Rightarrow> (Inr (geoprocessing_error algorithm e), w1)
                               | (Inr result, w1) \<Rightarrow> (Inr result, w1))
                       | PList xs \<Rightarrow> (Inl TypeError, w)
                       | _ \<Rightarrow> (Inl AttributeError, w)))))"

section \<open>The orchestration loop\<close>

text \<open>The names of the tools offered to the model in a round, in the order of \<^verbatim>\<open>tools_payload\<close>.\<close>

definition core_tool_names :: "string list" where
  "core_tool_names =
     [''new_layer_from_postgis'', ''add_layer_to_map'', ''create_layer_style'', ''set_active_style'',
      ''query_duckdb_sql'', ''query_postgis_database'', ''zoom_to_bounds'']"

definition geoprocessing_function_names :: "env \<Rightarrow> string list" where
  "geoprocessing_function_names env = map fst (get_tools env)"

definition tools_payload :: "env \<Rightarrow> string list" where
  "tools_payload env =
     core_tool_names
     @ (if has_openstreetmap_api_key env then [''download_from_openstreetmap''] else [])
     @ geoprocessing_function_names env"

text \<open>
  The body of \<^verbatim>\<open>for tool_call in assistant_message.tool_calls\<close>: the arguments are
  parsed first, the span event is emitted, and the \<^verbatim>\<open>if\<close>/\<^verbatim>\<open>elif\<close> chain on the
  function's name picks the handler; the last \<^verbatim>\<open>else\<close> raises.
\<close>

definition dispatch :: "env \<Rightarrow> ctx \<Rightarrow> tool_call \<Rightarrow> world \<Rightarrow> exn option \<times> world" where
  "dispatch env c tc w =
     (let function_name = tc_name tc
      in (case json_loads env (tc_arguments tc) of
            None \<Rightarrow> (Some JSONDecodeError, w)
          | Some tool_args \<Rightarrow>
              let w0 = w\<lparr>events := events w @ [ToolCallStarted function_name]\<rparr>
              in if function_name = ''new_layer_from_postgis'' then new_layer_from_postgis env c tc tool_args w0
                 else if function_name = ''add_layer_to_map'' then add_layer_to_map c tc tool_args w0
                 else if function_name = ''query_duckdb_sql'' then query_duckdb_sql env c tc tool_args w0
                 else if function_name = ''create_layer_style'' then create_layer_style env c tc tool_args w0
                 else if function_name = ''set_active_style'' then set_active_style c tc tool_args w0
                 else if function_name = ''download_from_openstreetmap''
                   then download_from_openstreetmap_tool env c tc tool_args w0
                 else if function_name = ''query_postgis_database'' then query_postgis_database env c tc tool_args w0
                 else if function_name = ''zoom_to_bounds'' then zoom_to_bounds c tc tool_args w0
                 else if function_name \<in> set (geoprocessing_function_names env)
                   then (case run_geoprocessing_tool env c tc w0 of
                           (Inl e, w1) \<Rightarrow> (Some e, w1)
                         | (Inr tool_result, w1) \<Rightarrow> (None, reply c tc tool_result w1))
                 else (Some (HTTPException 400), w0)))"

text \<open>The loop over the tool calls of one assistant message: an exception ends it.\<close>

fun dispatch_all :: "env \<Rightarrow> ctx \<Rightarrow> tool_call list \<Rightarrow> world \<Rightarrow> exn option \<times> world" where
  "dispatch_all env c [] w = (None, w)"
| "dispatch_all env c (tc # tcs) w =
     (case dispatch env c tc w of
        (Some e, w1) \<Rightarrow> (Some e, w1)
      | (None, w1) \<Rightarrow> dispatch_all env c tcs w1)"

text \<open>How one iteration of \<^verbatim>\<open>for i in range(25)\<close> ends.\<close>

datatype ctrl = Break | Continue | Raise exn

text \<open>
  One iteration: the cancellation flag is read and, when set, deleted; the transcript
  is fetched; the model is called; its message is stored; its tool calls are
  dispatched.
\<close>

definition iteration :: "env \<Rightarrow> ctx \<Rightarrow> world \<Rightarrow> ctrl \<times> world" where
  "iteration env c w =
     (case redis_get (cancelled_key (map_id c)) w of
        (flag, w1) \<Rightarrow>
          if redis_truthy flag then (Break, redis_delete (cancelled_key (map_id c)) w1)
          else
            (case get_all_map_messages (map_id c) (session_user_id c) w1 of
               Inl e \<Rightarrow> (Raise e, w1)
             | Inr openai_messages \<Rightarrow>
                 let w2 = w1\<lparr>events := events w1 @ [ChatCompletionsCreate openai_messages (tools_payload env)]\<rparr>
                 in (case chat_completions_create env w1 openai_messages (tools_payload env) of
                       Inl e \<Rightarrow> (Break, w2\<lparr>events := events w2 @ [NotifyError]\<rparr>)
                     | Inr choices \<Rightarrow>
                         (case choices of
                            [] \<Rightarrow> (Raise IndexError, w2)
                          | choice # _ \<Rightarrow>
                              let w3 = add_chat_completion_message c (AssistantMessage choice) w2
                              in (case tool_calls choice of
                                    None \<Rightarrow> (Break, w3)
                                  | Some tcs \<Rightarrow>
                                      if tcs = [] then (Break, w3)
                                      else (case dispatch_all env c tcs w3 of
                                              (Some e, w4) \<Rightarrow> (Raise e, w4)
                                            | (None, w4) \<Rightarrow> (Continue, w4)))))))"

text \<open>\<^verbatim>\<open>for i in range(n)\<close>: the exception that left the loop, if any, and the state.\<close>

fun for_range :: "env \<Rightarrow> ctx \<Rightarrow> nat \<Rightarrow> world \<Rightarrow> exn option \<times> world" where
  "for_range env c 0 w = (None, w)"
| "for_range env c (Suc n) w =
     (case iteration env c w of
        (Break, w1) \<Rightarrow> (None, w1)
      | (Raise e, w1) \<Rightarrow> (Some e, w1)
      | (Continue, w1) \<Rightarrow> for_range env c n w1)"

text \<open>
  The background task: the loop, and after it the statement that unlocks the map.  An
  exception that leaves the loop leaves the function.  The task starts with its local
  variables unbound.
\<close>

definition process_chat_interaction_task :: "env \<Rightarrow> ctx \<Rightarrow> world \<Rightarrow> exn option \<times> world" where
  "process_chat_interaction_task env c w =
     (case for_range env c 25 (w\<lparr>limited_query := None\<rparr>) of
        (Some e, w1) \<Rightarrow> (Some e, w1)
      | (None, w1) \<Rightarrow> (None, redis_delete (lock_key (map_id c)) w1))"

section \<open>The entry points\<close>

record message_send_response =
  message_id :: nat
  status :: string

text \<open>
  \<^verbatim>\<open>send_map_message\<close>: the response or the exception, the background tasks it
  queued (each the parameters of one \<open>process_chat_interaction_task\<close>), and the state.
  The identifier of the stored user message is its position in the table.
\<close>

definition send_map_message ::
    "env \<Rightarrow> string \<Rightarrow> string \<Rightarrow> pyval \<Rightarrow> world \<Rightarrow> (exn + message_send_response) \<times> ctx list \<times> world" where
  "send_map_message env m session_user message w =
     (case user_mundiai_maps w m of
        None \<Rightarrow> (Inl (HTTPException 404), [], w)
      | Some map_result \<Rightarrow>
          if soft_deleted map_result then (Inl (HTTPException 404), [], w)
          else if session_user \<noteq> owner_uuid map_result then (Inl (HTTPException 401), [], w)
          else
            (case redis_get (lock_key m) w of
               (locked, w1) \<Rightarrow>
                 if redis_truthy locked then (Inl (HTTPException 409), [], w1)
                 else
                   let w2 = redis_set (lock_key m) ''locked'' 60 w1
                   in (case get_all_map_messages m session_user w2 of
                         Inl e \<Rightarrow> (Inl e, [], w2)
                       | Inr current_messages \<Rightarrow>
                           (case get_map_description env w2 m of
                              Inl e \<Rightarrow> (Inl e, [], w2)
                            | Inr description_text \<Rightarrow>
                                (case get_system_messages env current_messages description_text of
                                   Inl e \<Rightarrow> (Inl e, [], w2)
                                 | Inr system_messages \<Rightarrow>
                                     let c = \<lparr>map_id = m, session_user_id = session_user, user_id = session_user\<rparr>;
                                         w3 = fold (\<lambda>system_msg. add_chat_completion_message c (SystemMessage system_msg))
                                                system_messages w2;
                                         w4 = add_chat_completion_message c (UserMessage message) w3
                                     in (Inr \<lparr>message_id = length (chat_completion_messages w4),
                                              status = ''processing_started''\<rparr>,
                                         [c], w4))))))"

text \<open>\<^verbatim>\<open>cancel_map_message\<close>: after the same checks, the flag is set for five minutes.\<close>

definition cancel_map_message :: "string \<Rightarrow> string \<Rightarrow> world \<Rightarrow> (exn + pydict) \<times> world" where
  "cancel_map_message m session_user w =
     (case user_mundiai_maps w m of
        None \<Rightarrow> (Inl (HTTPException 404), w)
      | Some map_result \<Rightarrow>
          if soft_deleted map_result then (Inl (HTTPException 404), w)
          else if session_user \<noteq> owner_uuid map_result then (Inl (HTTPException 401), w)
          else (Inr [(''status'', PStr ''cancelled'')], redis_set (cancelled_key m) ''true'' 300 w))"

section \<open>Notions the properties are stated with\<close>

text \<open>The row the handlers append for an invocation, and what a handler may do to the state.\<close>

definition tool_row :: "ctx \<Rightarrow> tool_call \<Rightarrow> pydict \<Rightarrow> message_row" where
  "tool_row c tc r = \<lparr>row_map_id = map_id c, row_sender_id = user_id c, message_json = ToolMessage (tc_id tc) r\<rparr>"

text \<open>
  \<open>answers c tc w out w'\<close>: from \<open>w\<close> to \<open>w'\<close> the Redis store and the record of calls
  are unchanged, and the message table has grown by one tool message for \<open>tc\<close> when no
  exception escaped (\<open>out = None\<close>) and by nothing when one did.
\<close>

definition answers :: "ctx \<Rightarrow> tool_call \<Rightarrow> world \<Rightarrow> exn option \<Rightarrow> world \<Rightarrow> bool" where
  "answers c tc w out w' =
     (redis w' = redis w \<and> events w' = events w \<and>
      (case out of
         Some e \<Rightarrow> chat_completion_messages w' = chat_completion_messages w
       | None \<Rightarrow> (\<exists>r. chat_completion_messages w' = chat_completion_messages w @ [tool_row c tc r])))"

text \<open>The invocations of an assistant message: none when \<^verbatim>\<open>tool_calls\<close> is \<^verbatim>\<open>None\<close>.\<close>

definition invocations :: "assistant_message \<Rightarrow> tool_call list" where
  "invocations m = (case tool_calls m of None \<Rightarrow> [] | Some tcs \<Rightarrow> tcs)"

text \<open>
  \<open>answered pending ms\<close>: the messages \<open>ms\<close> are assistant turns, each followed at once by
  exactly one tool message per invocation, in the order of the invocations, and they
  begin with the answers to the invocations still \<open>pending\<close>; nothing is left unanswered
  at the end.
\<close>

fun answered :: "tool_call list \<Rightarrow> message list \<Rightarrow> bool" where
  "answered [] [] = True"
| "answered (p # ps) [] = False"
| "answered [] (AssistantMessage m # ms) = answered (invocations m) ms"
| "answered (p # ps) (ToolMessage i r # ms) = (i = tc_id p \<and> answered ps ms)"
| "answered ps (m # ms) = False"

text \<open>The transcripts sent to the model, and the names of the handlers started, in order.\<close>

fun llm_requests :: "event list \<Rightarrow> message list list" where
  "llm_requests [] = []"
| "llm_requests (ChatCompletionsCreate ms ts # es) = ms # llm_requests es"
| "llm_requests (e # es) = llm_requests es"

fun started :: "event list \<Rightarrow> string list" where
  "started [] = []"
| "started (ToolCallStarted n # es) = n # started es"
| "started (e # es) = started es"

text \<open>The names of the tools the assistant messages of a transcript invoke, in order.\<close>

fun invoked :: "message list \<Rightarrow> string list" where
  "invoked [] = []"
| "invoked (AssistantMessage m # ms) = map tc_name (invocations m) @ invoked ms"
| "invoked (m # ms) = invoked ms"

definition tool_messages :: "tool_call list \<Rightarrow> pydict list \<Rightarrow> message list" where
  "tool_messages tcs rs = map (\<lambda>(tc, r). ToolMessage (tc_id tc) r) (zip tcs rs)"


text \<open>What a run added to the record of calls, and the layers attached to a map.\<close>

definition new_events :: "world \<Rightarrow> world \<Rightarrow> event list" where
  "new_events w w' = drop (length (events w)) (events w')"

definition attached_layers :: "world \<Rightarrow> string \<Rightarrow> string list" where
  "attached_layers w m =
     (case user_mundiai_maps w m of
        None \<Rightarrow> []
      | Some row \<Rightarrow> (case layers row of None \<Rightarrow> [] | Some ls \<Rightarrow> ls))"


text \<open>
  The answer of the geoprocessing service confirms an output uploaded when its body is
  a JSON object whose member \<^verbatim>\<open>upload_results\<close> is an object that holds, under the
  output's name, an object with a true \<^verbatim>\<open>uploaded\<close>.  This is read off the answer
  alone; no function of the handler takes part.  Then: the entry of
  \<^verbatim>\<open>created_layers\<close> for one output, and the status of a result.
\<close>

definition upload_confirmed :: "http_response \<Rightarrow> string \<Rightarrow> bool" where
  "upload_confirmed response param_name =
     (case response_json response of
        Some (PDict body) \<Rightarrow>
          (case map_of body ''upload_results'' of
             Some (PDict results) \<Rightarrow>
               (case map_of results param_name of
                  Some (PDict entry) \<Rightarrow>
                    (case map_of entry ''uploaded'' of None \<Rightarrow> False | Some v \<Rightarrow> truthy v)
                | _ \<Rightarrow> False)
           | _ \<Rightarrow> False)
      | _ \<Rightarrow> False)"

definition all_uploaded :: "http_response \<Rightarrow> string list \<Rightarrow> bool" where
  "all_uploaded response outputs = list_all (upload_confirmed response) outputs"

definition created_entry :: "string \<Rightarrow> output_layer_mapping \<Rightarrow> string \<Rightarrow> pyval" where
  "created_entry param_name layer_info new_id =
     PDict [(''param_name'', PStr param_name), (''layer_id'', PStr new_id),
            (''layer_name'', PStr (out_layer_id layer_info @ out_file_extension layer_info)),
            (''layer_type'', PStr (out_layer_type layer_info))]"

definition status_of :: "pydict \<Rightarrow> pyval" where
  "status_of tool_result = dict_get tool_result ''status''"

text \<open>
  The lock of a map is held when \<^verbatim>\<open>redis.get\<close> of its key is truthy; a map is found
  when it exists and is not soft-deleted; a caller is authorised for a map that is
  found and is theirs.
\<close>

definition map_found :: "world \<Rightarrow> string \<Rightarrow> bool" where
  "map_found w m = (case user_mundiai_maps w m of None \<Rightarrow> False | Some map_result \<Rightarrow> \<not> soft_deleted map_result)"

definition lock_held :: "world \<Rightarrow> string \<Rightarrow> bool" where
  "lock_held w m = redis_truthy (map_option fst (redis w (lock_key m)))"

definition authorised :: "world \<Rightarrow> string \<Rightarrow> string \<Rightarrow> bool" where
  "authorised w m session_user =
     (case user_mundiai_maps w m of
        None \<Rightarrow> False
      | Some map_result \<Rightarrow> \<not> soft_deleted map_result \<and> session_user = owner_uuid map_result)"

text \<open>
  The cancellation flag of the task's map is set when \<^verbatim>\<open>redis.get\<close> of its key is
  truthy.  \<open>always_invokes\<close>: whatever it is asked, the model answers with a message
  that carries at least one tool invocation.
\<close>

definition cancelled :: "ctx \<Rightarrow> world \<Rightarrow> bool" where
  "cancelled c w = redis_truthy (map_option fst (redis w (cancelled_key (map_id c))))"

definition always_invokes :: "env \<Rightarrow> bool" where
  "always_invokes env =
     (\<forall>w ms ts. case chat_completions_create env w ms ts of
                   Inl e \<Rightarrow> False
                 | Inr choices \<Rightarrow> (case choices of [] \<Rightarrow> False | choice # rest \<Rightarrow> invocations choice \<noteq> []))"

text \<open>
  The names for which the dispatch has a branch, whatever was offered to the model, and
  the exception an invocation of any other name ends with: the arguments are parsed
  before the name is looked at, so text that does not parse gives the decoding error
  and not the 400.
\<close>

definition dispatchable :: "env \<Rightarrow> string \<Rightarrow> bool" where
  "dispatchable env name =
     (name \<in> set core_tool_names \<or> name = ''download_from_openstreetmap''
      \<or> name \<in> set (geoprocessing_function_names env))"

definition unknown_tool_exception :: "env \<Rightarrow> tool_call \<Rightarrow> exn" where
  "unknown_tool_exception env tc =
     (case json_loads env (tc_arguments tc) of None \<Rightarrow> JSONDecodeError | Some tool_args \<Rightarrow> HTTPException 400)"
section \<open>Example states and collaborators\<close>

text \<open>
  A map \<open>M1\<close> of user \<open>u1\<close> with one attached layer, locked for a running task, and
  collaborators with fixed answers.  \<open>example_env\<close> takes the function that stands for
  \<^verbatim>\<open>json.loads\<close>, the model, and the answer of the geoprocessing service.
\<close>

definition layer_A :: layer_row where
  "layer_A = \<lparr>layer_id = ''LAAAAAAAAAAA'', layer_owner_uuid = ''u1'', layer_name = Some ''untitled'',
               layer_type = ''vector'', s3_key = Some ''uploads/u1/P1/LAAAAAAAAAAA.fgb''\<rparr>"

definition layer_N :: layer_row where
  "layer_N = \<lparr>layer_id = ''LNNNNNNNNNNN'', layer_owner_uuid = ''u1'', layer_name = Some ''L000000000000.fgb'',
               layer_type = ''vector'', s3_key = Some ''uploads/u1/P1/LNNNNNNNNNNN.fgb''\<rparr>"

definition map_M1 :: map_row where
  "map_M1 = \<lparr>owner_uuid = ''u1'', soft_deleted = False, layers = Some [''LAAAAAAAAAAA''], project_id = ''P1''\<rparr>"

definition w_start :: world where
  "w_start =
     \<lparr>redis = [lock_key ''M1'' \<mapsto> (''locked'', 60)],
      user_mundiai_maps = [''M1'' \<mapsto> map_M1],
      map_layers = [layer_A],
      chat_completion_messages =
        [\<lparr>row_map_id = ''M1'', row_sender_id = ''u1'', message_json = UserMessage (PStr ''Hello'')\<rparr>],
      project_postgres_connections = [(''C1'', ''u1'')],
      layer_styles = [],
      map_layer_styles = [],
      events = [], limited_query = None\<rparr>"

definition c_M1 :: ctx where
  "c_M1 = \<lparr>map_id = ''M1'', session_user_id = ''u1'', user_id = ''u1''\<rparr>"

definition ok_response :: http_response where
  "ok_response =
     \<lparr>status_code = 200, response_text = ''ok'',
      response_json = Some (PDict [(''upload_results'', PDict [(''OUTPUT'', PDict [(''uploaded'', PBool True)])])])\<rparr>"

definition example_env ::
    "(string \<Rightarrow> pyval option) \<Rightarrow> (world \<Rightarrow> message list \<Rightarrow> string list \<Rightarrow> exn + assistant_message list) \<Rightarrow>
     http_response \<Rightarrow> env" where
  "example_env loads model response =
     \<lparr>json_loads = loads,
      re_search_limit = (\<lambda>q. None),
      has_openstreetmap_api_key = False,
      get_tools = [(''native_buffer'', ''Buffer a vector layer by a distance'')],
      generate_id = (\<lambda>w prefix. prefix @ ''000000000000''),
      chat_completions_create = model,
      postgis_probe = (\<lambda>w cid q. Inl (OtherError ''connection refused'')),
      generate_maplibre_layers = (\<lambda>l g. Inr (PList [])),
      execute_duckdb_query = (\<lambda>w q l n. Inl (OtherError ''no such table'')),
      validate_style = (\<lambda>w m l ls. None),
      download_from_openstreetmap = (\<lambda>w m b t n. Inl (OtherError ''no API key'')),
      postgres_fetch = (\<lambda>w cid q. Inr []),
      generate_presigned_url = (\<lambda>w operation k. Inr (''https://storage/'' @ k)),
      qgis_post = (\<lambda>w request. Inr response),
      s3_get_object = (\<lambda>w k. Inr ''bytes''),
      ingest_upload = (\<lambda>w filename file_content. Inr layer_N),
      get_map_description = (\<lambda>w m. Inr ''An empty map''),
      get_system_messages = (\<lambda>ms d. Inr [])\<rparr>"

text \<open>
  The argument texts of the examples and what \<^verbatim>\<open>json.loads\<close> makes of them; any
  other text does not parse.
\<close>

definition example_loads :: "string \<Rightarrow> pyval option" where
  "example_loads s =
     (if s = ''attach A as Roads''
      then Some (PDict [(''layer_id'', PStr ''LAAAAAAAAAAA''), (''new_name'', PStr ''Roads'')])
      else if s = ''buffer A by 10''
      then Some (PDict [(''INPUT'', PStr ''LAAAAAAAAAAA''), (''DISTANCE'', PNum 10),
                        (''OUTPUT'', PStr ''TEMPORARY_OUTPUT'')])
      else if s = ''zoom nowhere'' then Some (PDict [])
      else if s = ''query no layers'' then Some (PDict [(''layer_ids'', PList []), (''sql_query'', PStr ''SELECT 1'')])
      else if s = ''no arguments'' then Some (PDict [])
      else None)"

definition rename_call :: tool_call where
  "rename_call = \<lparr>tc_id = ''call_1'', tc_name = ''add_layer_to_map'', tc_arguments = ''attach A as Roads''\<rparr>"


definition attach_call :: tool_call where
  "attach_call = \<lparr>tc_id = ''call_2'', tc_name = ''add_layer_to_map'', tc_arguments = ''attach A as Roads''\<rparr>"

definition buffer_call :: tool_call where
  "buffer_call = \<lparr>tc_id = ''call_3'', tc_name = ''native_buffer'', tc_arguments = ''buffer A by 10''\<rparr>"

definition failed_response :: http_response where
  "failed_response = \<lparr>status_code = 500, response_text = ''Internal Server Error'', response_json = None\<rparr>"

definition unconfirmed_response :: http_response where
  "unconfirmed_response =
     \<lparr>status_code = 200, response_text = ''ok'',
      response_json = Some (PDict [(''upload_results'', PDict [(''OUTPUT'', PDict [(''uploaded'', PBool False)])])])\<rparr>"

definition w_idle :: world where
  "w_idle = w_start\<lparr>redis := Map.empty\<rparr>"

text \<open>
  Two variants of the collaborators: one whose description of the map fails, and one
  whose map state provider makes a system message of the description.
\<close>

definition no_description_env :: env where
  "no_description_env =
     (example_env example_loads (\<lambda>w ms ts. Inr []) ok_response)
       \<lparr>get_map_description := (\<lambda>w m. Inl (OtherError ''connection refused''))\<rparr>"

definition describing_env :: env where
  "describing_env =
     (example_env example_loads (\<lambda>w ms ts. Inr []) ok_response)
       \<lparr>get_system_messages := (\<lambda>ms description. Inr [PStr description])\<rparr>"

text \<open>
  A model that asks for two tools in its first answer and ends the conversation in its
  second.
\<close>

definition zoom_call :: tool_call where
  "zoom_call = \<lparr>tc_id = ''call_1'', tc_name = ''zoom_to_bounds'', tc_arguments = ''zoom nowhere''\<rparr>"

definition two_calls_message :: assistant_message where
  "two_calls_message = \<lparr>content = PNone, tool_calls = Some [zoom_call, attach_call]\<rparr>"

definition final_message :: assistant_message where
  "final_message = \<lparr>content = PStr ''Done.'', tool_calls = None\<rparr>"

definition two_round_model :: "world \<Rightarrow> message list \<Rightarrow> string list \<Rightarrow> exn + assistant_message list" where
  "two_round_model w ms ts = (if length ms = 1 then Inr [two_calls_message] else Inr [final_message])"

definition two_round_env :: env where
  "two_round_env = example_env example_loads two_round_model ok_response"

text \<open>
  A model that asks for \<^verbatim>\<open>zoom_to_bounds\<close> without bounds in every answer, and one
  that asks every time for a tool the dispatch does not know.
\<close>

definition zoom_message :: assistant_message where
  "zoom_message = \<lparr>content = PNone, tool_calls = Some [zoom_call]\<rparr>"

definition always_zoom_env :: env where
  "always_zoom_env = example_env example_loads (\<lambda>w ms ts. Inr [zoom_message]) ok_response"

definition bogus_call :: tool_call where
  "bogus_call = \<lparr>tc_id = ''call_9'', tc_name = ''launch_rocket'', tc_arguments = ''no arguments''\<rparr>"

definition bogus_message :: assistant_message where
  "bogus_message = \<lparr>content = PNone, tool_calls = Some [bogus_call]\<rparr>"

definition always_bogus_env :: env where
  "always_bogus_env = example_env example_loads (\<lambda>w ms ts. Inr [bogus_message]) ok_response"

text \<open>
  Models whose answer carries two invocations, the second or the first of which ends
  the round with an exception.
\<close>

definition osm_call :: tool_call where
  "osm_call = \<lparr>tc_id = ''call_7'', tc_name = ''download_from_openstreetmap'', tc_arguments = ''no arguments''\<rparr>"

definition osm_then_bogus_message :: assistant_message where
  "osm_then_bogus_message = \<lparr>content = PNone, tool_calls = Some [osm_call, bogus_call]\<rparr>"

definition osm_then_bogus_env :: env where
  "osm_then_bogus_env = example_env example_loads (\<lambda>w ms ts. Inr [osm_then_bogus_message]) ok_response"

definition zoom_then_bogus_message :: assistant_message where
  "zoom_then_bogus_message = \<lparr>content = PNone, tool_calls = Some [zoom_call, bogus_call]\<rparr>"

definition zoom_then_bogus_env :: env where
  "zoom_then_bogus_env = example_env example_loads (\<lambda>w ms ts. Inr [zoom_then_bogus_message]) ok_response"

definition empty_layer_ids_call :: tool_call where
  "empty_layer_ids_call = \<lparr>tc_id = ''call_4'', tc_name = ''query_duckdb_sql'', tc_arguments = ''query no layers''\<rparr>"

definition duckdb_then_attach_message :: assistant_message where
  "duckdb_then_attach_message = \<lparr>content = PNone, tool_calls = Some [empty_layer_ids_call, attach_call]\<rparr>"

definition duckdb_then_attach_env :: env where
  "duckdb_then_attach_env = example_env example_loads (\<lambda>w ms ts. Inr [duckdb_then_attach_message]) ok_response"

section \<open>What the handlers and the loop do to the state\<close>

lemma reply_simps [simp]:
  "redis (reply c tc r w) = redis w"
  "events (reply c tc r w) = events w"
  "map_layers (reply c tc r w) = map_layers w"
  "user_mundiai_maps (reply c tc r w) = user_mundiai_maps w"
  "chat_completion_messages (reply c tc r w) = chat_completion_messages w @ [tool_row c tc r]"
  by (simp_all add: reply_def add_chat_completion_message_def tool_row_def)

lemma append_layer_to_map_frame [simp]:
  "redis (append_layer_to_map l m w) = redis w"
  "events (append_layer_to_map l m w) = events w"
  "map_layers (append_layer_to_map l m w) = map_layers w"
  "chat_completion_messages (append_layer_to_map l m w) = chat_completion_messages w"
  by (simp_all add: append_layer_to_map_def split: option.splits)

lemma update_layer_name_frame [simp]:
  "redis (update_layer_name n l w) = redis w"
  "events (update_layer_name n l w) = events w"
  "user_mundiai_maps (update_layer_name n l w) = user_mundiai_maps w"
  "chat_completion_messages (update_layer_name n l w) = chat_completion_messages w"
  by (simp_all add: update_layer_name_def)

lemma upsert_frame [simp]:
  "redis (upsert_map_layer_style m l s w) = redis w"
  "events (upsert_map_layer_style m l s w) = events w"
  "chat_completion_messages (upsert_map_layer_style m l s w) = chat_completion_messages w"
  by (simp_all add: upsert_map_layer_style_def)

lemma add_layer_to_map_answers:
  "add_layer_to_map c tc a w = (out, w') \<Longrightarrow> answers c tc w out w'"
  by (auto simp: add_layer_to_map_def answers_def Let_def split: sum.splits option.splits if_splits)

lemma set_active_style_answers:
  "set_active_style c tc a w = (out, w') \<Longrightarrow> answers c tc w out w'"
  by (auto simp: set_active_style_def answers_def Let_def split: sum.splits option.splits if_splits pyval.splits)

lemma create_layer_style_answers:
  "create_layer_style env c tc a w = (out, w') \<Longrightarrow> answers c tc w out w'"
  by (auto simp: create_layer_style_def answers_def Let_def split: sum.splits option.splits if_splits exn.splits prod.splits)

lemma query_duckdb_sql_answers:
  "query_duckdb_sql env c tc a w = (out, w') \<Longrightarrow> answers c tc w out w'"
  by (auto simp: query_duckdb_sql_def answers_def Let_def split: sum.splits option.splits if_splits exn.splits prod.splits)

lemma query_postgis_database_answers:
  "query_postgis_database env c tc a w = (out, w') \<Longrightarrow> answers c tc w out w'"
  by (auto simp: query_postgis_database_def answers_def Let_def split: sum.splits option.splits if_splits pyval.splits)

lemma zoom_to_bounds_answers:
  "zoom_to_bounds c tc a w = (out, w') \<Longrightarrow> answers c tc w out w'"
  by (auto simp: zoom_to_bounds_def answers_def Let_def split: sum.splits option.splits if_splits exn.splits)

lemma osm_answers:
  "download_from_openstreetmap_tool env c tc a w = (out, w') \<Longrightarrow> answers c tc w out w'"
  by (auto simp: download_from_openstreetmap_tool_def answers_def Let_def split: sum.splits option.splits if_splits prod.splits)

lemma create_postgis_layer_frame:
  "create_postgis_layer env c cid q n w = Inr (l, w') \<Longrightarrow>
     redis w' = redis w \<and> events w' = events w \<and> chat_completion_messages w' = chat_completion_messages w"
  by (auto simp: create_postgis_layer_def Let_def split: sum.splits option.splits if_splits pyval.splits)

lemma new_layer_from_postgis_answers:
  "new_layer_from_postgis env c tc a w = (out, w') \<Longrightarrow> answers c tc w out w'"
  by (auto simp: new_layer_from_postgis_def answers_def Let_def dest!: create_postgis_layer_frame
      split: sum.splits option.splits if_splits prod.splits pyval.splits)

lemma internal_upload_layer_frame:
  "internal_upload_layer env c f b a w = (r, w') \<Longrightarrow>
     redis w' = redis w \<and> events w' = events w \<and> chat_completion_messages w' = chat_completion_messages w"
  by (auto simp: internal_upload_layer_def Let_def split: sum.splits if_splits)

lemma create_layers_frame:
  "create_layers env c outs w = (r, w') \<Longrightarrow>
     redis w' = redis w \<and> events w' = events w \<and> chat_completion_messages w' = chat_completion_messages w"
proof (induction outs arbitrary: w r w')
  case Nil
  then show ?case by simp
next
  case (Cons a outs)
  obtain p info where a: "a = (p, info)" by (cases a)
  show ?case
    using Cons.prems Cons.IH unfolding a
    by (auto simp: Let_def split: sum.splits prod.splits dest!: internal_upload_layer_frame)
qed

lemma after_response_frame:
  "after_response env c f alg outs resp w = (r, w') \<Longrightarrow>
     redis w' = redis w \<and> events w' = events w \<and> chat_completion_messages w' = chat_completion_messages w"
  by (auto simp: after_response_def split: if_splits option.splits sum.splits prod.splits dest!: create_layers_frame)

lemma geoprocessing_body_frame:
  "geoprocessing_body env c f alg d args w = (r, w') \<Longrightarrow>
     redis w' = redis w \<and> events w' = events w \<and> chat_completion_messages w' = chat_completion_messages w"
  by (auto simp: geoprocessing_body_def split: sum.splits prod.splits dest!: after_response_frame)

lemma run_geoprocessing_tool_frame:
  "run_geoprocessing_tool env c tc w = (r, w') \<Longrightarrow>
     redis w' = redis w \<and> events w' = events w \<and> chat_completion_messages w' = chat_completion_messages w"
  by (auto simp: run_geoprocessing_tool_def Let_def split: option.splits sum.splits prod.splits pyval.splits
      dest!: geoprocessing_body_frame)

lemma llm_requests_append [simp]: "llm_requests (a @ b) = llm_requests a @ llm_requests b"
  by (induction a rule: llm_requests.induct) simp_all

lemma started_append [simp]: "started (a @ b) = started a @ started b"
  by (induction a rule: started.induct) simp_all

lemma llm_requests_starts [simp]: "llm_requests (map (\<lambda>tc. ToolCallStarted (f tc)) tcs) = []"
  by (induction tcs) simp_all

lemma started_starts [simp]: "started (map (\<lambda>tc. ToolCallStarted (f tc)) tcs) = map f tcs"
  by (induction tcs) simp_all

lemma dispatch_effect:
  assumes "dispatch env c tc w = (out, w')"
  shows "redis w' = redis w \<and>
         (case out of
            None \<Rightarrow> events w' = events w @ [ToolCallStarted (tc_name tc)]
                    \<and> (\<exists>r. chat_completion_messages w' = chat_completion_messages w @ [tool_row c tc r])
          | Some e \<Rightarrow> chat_completion_messages w' = chat_completion_messages w
                    \<and> (events w' = events w \<or> events w' = events w @ [ToolCallStarted (tc_name tc)]))"
proof (cases "json_loads env (tc_arguments tc)")
  case None
  with assms show ?thesis by (auto simp: dispatch_def)
next
  case (Some a)
  define w0 where "w0 = w\<lparr>events := events w @ [ToolCallStarted (tc_name tc)]\<rparr>"
  have w0: "redis w0 = redis w" "events w0 = events w @ [ToolCallStarted (tc_name tc)]"
    "chat_completion_messages w0 = chat_completion_messages w"
    by (simp_all add: w0_def)
  have "answers c tc w0 out w' \<or> (out = Some (HTTPException 400) \<and> w' = w0)"
    using assms Some unfolding dispatch_def Let_def w0_def[symmetric]
    by (auto split: if_splits prod.splits sum.splits
        dest: new_layer_from_postgis_answers add_layer_to_map_answers query_duckdb_sql_answers
          create_layer_style_answers set_active_style_answers osm_answers
          query_postgis_database_answers zoom_to_bounds_answers
        dest!: run_geoprocessing_tool_frame simp: answers_def)
  then show ?thesis
    using w0 by (auto simp: answers_def split: option.splits)
qed

lemma invoked_append [simp]: "invoked (a @ b) = invoked a @ invoked b"
  by (induction a rule: invoked.induct) simp_all

lemma invoked_tool_messages [simp]: "invoked (tool_messages tcs rs) = []"
  unfolding tool_messages_def
  by (induction tcs arbitrary: rs) (auto simp: zip_Cons1 split: list.splits)

lemma answered_tool_messages:
  "length rs = length tcs \<Longrightarrow> answered (tcs @ ps) (tool_messages tcs rs @ rest) = answered ps rest"
  unfolding tool_messages_def
  by (induction tcs rs rule: list_induct2') simp_all

lemma answered_append:
  "answered ps a \<Longrightarrow> answered [] b \<Longrightarrow> answered ps (a @ b)"
  by (induction ps a rule: answered.induct) simp_all

lemma map_messages_append:
  "chat_completion_messages w' = chat_completion_messages w @ rows \<Longrightarrow>
   map_messages m w' = map_messages m w @ map message_json (filter (\<lambda>r. row_map_id r = m) rows)"
  by (simp add: map_messages_def)

lemma map_messages_tool_rows:
  "map message_json (filter (\<lambda>r. row_map_id r = map_id c) (map (\<lambda>(tc, r). tool_row c tc r) (zip tcs rs)))
     = tool_messages tcs rs"
  unfolding tool_messages_def
  by (induction tcs arbitrary: rs) (auto simp: zip_Cons1 tool_row_def split: list.splits)

lemma dispatch_all_None:
  "dispatch_all env c tcs w = (None, w') \<Longrightarrow>
     redis w' = redis w \<and>
     events w' = events w @ map (\<lambda>tc. ToolCallStarted (tc_name tc)) tcs \<and>
     (\<exists>rs. length rs = length tcs \<and>
        chat_completion_messages w' = chat_completion_messages w @ map (\<lambda>(tc, r). tool_row c tc r) (zip tcs rs))"
proof (induction tcs arbitrary: w)
  case Nil
  then show ?case by simp
next
  case (Cons tc tcs)
  from Cons.prems obtain w1 where d: "dispatch env c tc w = (None, w1)"
    and rest: "dispatch_all env c tcs w1 = (None, w')"
    by (auto split: prod.splits option.splits)
  from dispatch_effect[OF d] obtain r where
    1: "redis w1 = redis w" "events w1 = events w @ [ToolCallStarted (tc_name tc)]"
       "chat_completion_messages w1 = chat_completion_messages w @ [tool_row c tc r]"
    by auto
  from Cons.IH[OF rest] obtain rs where
    2: "redis w' = redis w1" "events w' = events w1 @ map (\<lambda>tc. ToolCallStarted (tc_name tc)) tcs"
       "length rs = length tcs"
       "chat_completion_messages w' = chat_completion_messages w1 @ map (\<lambda>(tc, r). tool_row c tc r) (zip tcs rs)"
    by auto
  have "length (r # rs) = length (tc # tcs) \<and>
        chat_completion_messages w' =
          chat_completion_messages w @ map (\<lambda>(tc, r). tool_row c tc r) (zip (tc # tcs) (r # rs))"
    using 1 2 by simp
  then show ?case using 1 2 by (intro conjI exI[of _ "r # rs"]) simp_all
qed

lemma dispatch_all_Some:
  "dispatch_all env c tcs w = (Some e, w') \<Longrightarrow>
     redis w' = redis w \<and>
     (\<exists>evs. events w' = events w @ evs \<and> llm_requests evs = [] \<and> set evs \<subseteq> ToolCallStarted ` UNIV) \<and>
     (\<exists>k rs. k < length tcs \<and> length rs = k \<and>
        chat_completion_messages w' =
          chat_completion_messages w @ map (\<lambda>(tc, r). tool_row c tc r) (zip (take k tcs) rs))"
proof (induction tcs arbitrary: w)
  case Nil
  then show ?case by simp
next
  case (Cons tc tcs)
  show ?case
  proof (cases "dispatch env c tc w")
    case (Pair o1 w1)
    show ?thesis
    proof (cases o1)
      case (Some e1)
      with Pair Cons.prems have w': "w' = w1" by simp
      from dispatch_effect[OF Pair] Some have
        "redis w1 = redis w" "chat_completion_messages w1 = chat_completion_messages w"
        "events w1 = events w \<or> events w1 = events w @ [ToolCallStarted (tc_name tc)]"
        by auto
      then show ?thesis unfolding w'
        by (auto intro!: exI[of _ "0::nat"])
    next
      case None
      with Pair Cons.prems have rest: "dispatch_all env c tcs w1 = (Some e, w')" by simp
      from dispatch_effect[OF Pair] None obtain r where
        1: "redis w1 = redis w" "events w1 = events w @ [ToolCallStarted (tc_name tc)]"
           "chat_completion_messages w1 = chat_completion_messages w @ [tool_row c tc r]"
        by auto
      from Cons.IH[OF rest] obtain evs k rs where
        2: "redis w' = redis w1" "events w' = events w1 @ evs" "llm_requests evs = []"
           "set evs \<subseteq> ToolCallStarted ` UNIV" "k < length tcs" "length rs = k"
           "chat_completion_messages w' =
              chat_completion_messages w1 @ map (\<lambda>(tc, r). tool_row c tc r) (zip (take k tcs) rs)"
        by auto
      have a: "events w' = events w @ (ToolCallStarted (tc_name tc) # evs)
               \<and> llm_requests (ToolCallStarted (tc_name tc) # evs) = []
               \<and> set (ToolCallStarted (tc_name tc) # evs) \<subseteq> ToolCallStarted ` UNIV"
        using 1 2 by auto
      have b: "Suc k < length (tc # tcs) \<and> length (r # rs) = Suc k \<and>
               chat_completion_messages w' =
                 chat_completion_messages w @ map (\<lambda>(tc, r). tool_row c tc r) (zip (take (Suc k) (tc # tcs)) (r # rs))"
        using 1 2 by simp
      have r: "redis w' = redis w" using 1 2 by simp
      from a have A: "\<exists>evs. events w' = events w @ evs \<and> llm_requests evs = []
                        \<and> set evs \<subseteq> ToolCallStarted ` UNIV"
        by blast
      from b have B: "\<exists>k rs. k < length (tc # tcs) \<and> length rs = k \<and>
               chat_completion_messages w' =
                 chat_completion_messages w @ map (\<lambda>(tc, r). tool_row c tc r) (zip (take k (tc # tcs)) rs)"
        by blast
      show ?thesis using r A B by simp
    qed
  qed
qed

lemma get_all_map_messages_events [simp]:
  "get_all_map_messages m su (w\<lparr>events := ev\<rparr>) = get_all_map_messages m su w"
  by (simp add: get_all_map_messages_def split: option.splits)

lemma get_all_map_messages_Inr:
  "get_all_map_messages m su w = Inr ms \<Longrightarrow> ms = map_messages m w"
  by (auto simp: get_all_map_messages_def map_messages_def split: option.splits if_splits)

lemma map_messages_events [simp]: "map_messages m (w\<lparr>events := ev\<rparr>) = map_messages m w"
  by (simp add: map_messages_def)

lemma map_messages_add [simp]:
  "map_messages (map_id c) (add_chat_completion_message c msg w) = map_messages (map_id c) w @ [msg]"
  by (simp add: map_messages_def add_chat_completion_message_def)

lemma add_chat_frame [simp]:
  "redis (add_chat_completion_message c msg w) = redis w"
  "events (add_chat_completion_message c msg w) = events w"
  "map_layers (add_chat_completion_message c msg w) = map_layers w"
  "user_mundiai_maps (add_chat_completion_message c msg w) = user_mundiai_maps w"
  by (simp_all add: add_chat_completion_message_def)

lemma iteration_cases:
  assumes "iteration env c w = (ctl, w')"
  defines "ck \<equiv> cancelled_key (map_id c)"
  defines "w1 \<equiv> w\<lparr>events := events w @ [RedisGet ck]\<rparr>"
  defines "ms \<equiv> map_messages (map_id c) w"
  defines "w2 \<equiv> w\<lparr>events := events w @ [RedisGet ck, ChatCompletionsCreate ms (tools_payload env)]\<rparr>"
  shows
    "(redis_truthy (map_option fst (redis w ck)) \<and> ctl = Break \<and> w' = redis_delete ck w1)
   \<or> (\<not> redis_truthy (map_option fst (redis w ck)) \<and>
       ((\<exists>e. get_all_map_messages (map_id c) (session_user_id c) w = Inl e \<and> ctl = Raise e \<and> w' = w1)
      \<or> (get_all_map_messages (map_id c) (session_user_id c) w = Inr ms \<and>
          ((\<exists>e. chat_completions_create env w1 ms (tools_payload env) = Inl e \<and> ctl = Break
                \<and> w' = w2\<lparr>events := events w2 @ [NotifyError]\<rparr>)
         \<or> (chat_completions_create env w1 ms (tools_payload env) = Inr [] \<and> ctl = Raise IndexError \<and> w' = w2)
         \<or> (\<exists>choice rest. chat_completions_create env w1 ms (tools_payload env) = Inr (choice # rest) \<and>
               ((invocations choice = [] \<and> ctl = Break
                   \<and> w' = add_chat_completion_message c (AssistantMessage choice) w2)
              \<or> (invocations choice \<noteq> [] \<and>
                   (\<exists>out. dispatch_all env c (invocations choice)
                             (add_chat_completion_message c (AssistantMessage choice) w2) = (out, w')
                      \<and> ctl = (case out of None \<Rightarrow> Continue | Some e \<Rightarrow> Raise e)))))))))"
proof -
  have g: "\<And>x. get_all_map_messages (map_id c) (session_user_id c) w = Inr x \<Longrightarrow> x = ms"
    unfolding ms_def by (rule get_all_map_messages_Inr)
  show ?thesis
    using assms(1) unfolding iteration_def redis_get_def Let_def
    apply (simp only: prod.case)
    apply (fold ck_def)
    apply (fold w1_def)
    apply (cases "redis_truthy (map_option fst (redis w ck))")
     apply simp
    apply (cases "get_all_map_messages (map_id c) (session_user_id c) w")
     apply (simp add: w1_def)
    apply (frule g)
    apply (auto simp: w1_def w2_def invocations_def split: sum.splits list.splits option.splits prod.splits if_splits)
    done
qed

lemma append_layer_to_map_attached:
  "l \<in> set (attached_layers w m) \<Longrightarrow> append_layer_to_map l m w = w"
  by (auto simp: append_layer_to_map_def attached_layers_def split: option.splits)

lemma attached_update_layer_name [simp]:
  "attached_layers (update_layer_name n l w) m = attached_layers w m"
  by (simp add: attached_layers_def)

lemma attached_reply [simp]:
  "attached_layers (reply c tc r w) m = attached_layers w m"
  by (simp add: attached_layers_def)

lemma attached_events [simp]:
  "attached_layers (w\<lparr>events := ev\<rparr>) m = attached_layers w m"
  by (simp add: attached_layers_def)

lemma layer_exists_events [simp]:
  "layer_exists (w\<lparr>events := ev\<rparr>) l u = layer_exists w l u"
  by (simp add: layer_exists_def split: option.splits)

lemma renamed_all:
  "list_all (\<lambda>r. layer_name r = nm)
     (filter (\<lambda>r. layer_id r = l) (map (\<lambda>r. if layer_id r = l then r\<lparr>layer_name := nm\<rparr> else r) xs))"
  by (induction xs) simp_all

lemma renamed_ex:
  "list_ex (\<lambda>r. layer_id r = l \<and> layer_owner_uuid r = u) xs \<Longrightarrow>
   list_ex (\<lambda>r. layer_id r = l \<and> layer_name r = nm)
     (map (\<lambda>r. if layer_id r = l then r\<lparr>layer_name := nm\<rparr> else r) xs)"
  by (induction xs) auto




lemma list_ex_renamed:
  "list_ex (\<lambda>r. layer_id r = x \<and> layer_owner_uuid r = u)
     (map (\<lambda>r. if layer_id r = l then r\<lparr>layer_name := n\<rparr> else r) xs)
   = list_ex (\<lambda>r. layer_id r = x \<and> layer_owner_uuid r = u) xs"
  by (induction xs) auto

lemma layer_exists_update_layer_name [simp]:
  "layer_exists (update_layer_name n l w) x u = layer_exists w x u"
  by (cases x) (simp_all add: layer_exists_def update_layer_name_def list_ex_renamed)

lemma layer_exists_append_layer_to_map [simp]:
  "layer_exists (append_layer_to_map l m w) x u = layer_exists w x u"
  by (cases x) (simp_all add: layer_exists_def)

lemma layer_exists_reply [simp]:
  "layer_exists (reply c tc r w) x u = layer_exists w x u"
  by (cases x) (simp_all add: layer_exists_def)


lemma geoprocessing_error_status [simp]: "status_of (geoprocessing_error alg e) = PStr ''error''"
  by (cases e) (simp_all add: geoprocessing_error_def status_of_def dict_get_def)

lemma prepare_request_outputs:
  "prepare_request env c alg descr args w = Inr (request, outputs) \<Longrightarrow>
     \<exists>info. outputs = [(''OUTPUT'', info)]"
  by (auto simp: prepare_request_def Let_def split: sum.splits option.splits prod.splits)

lemma create_layers_single:
  "create_layers env c [(p, info)] w = (res, w') \<Longrightarrow>
     (case res of
        Inl e \<Rightarrow> w' = w
      | Inr created \<Rightarrow>
          (\<exists>row. created = [created_entry p info (layer_id row)]
             \<and> map_layers w' = map_layers w @ [row]))"
  by (auto simp: internal_upload_layer_def created_entry_def Let_def
      split: sum.splits prod.splits if_splits)

text \<open>
  The handler's search for an output that is not confirmed finds none exactly when the
  answer confirms every output.
\<close>

lemma output_uploaded_iff:
  "(output_uploaded u n = Inr True) =
     (\<exists>results entry v. u = PDict results \<and> map_of results n = Some (PDict entry)
        \<and> map_of entry ''uploaded'' = Some v \<and> truthy v)"
  by (auto simp: output_uploaded_def contains_key_def item_def dict_get_def
      split: pyval.splits sum.splits bool.splits option.splits if_splits)

lemma first_not_uploaded_iff:
  "(first_not_uploaded u names = Inr None) = (\<forall>n \<in> set names. output_uploaded u n = Inr True)"
  by (induction names) (auto split: sum.splits bool.splits)

lemma all_uploaded_iff:
  assumes "response_json response = Some q" "upload_results_of q = Inr u"
  shows "(first_not_uploaded u names = Inr None) = all_uploaded response names"
proof -
  have "\<And>n. (output_uploaded u n = Inr True) = upload_confirmed response n"
    unfolding output_uploaded_iff using assms
    by (auto simp: upload_confirmed_def upload_results_of_def dict_get_default_def
        split: pyval.splits option.splits)
  then show ?thesis
    by (simp add: first_not_uploaded_iff all_uploaded_def list_all_iff)
qed

lemma after_response_not_confirmed:
  assumes "\<not> (status_code response = 200 \<and> all_uploaded response (map fst outputs))"
    and "after_response env c f alg outputs response w = (res, w')"
  shows "w' = w \<and> (case res of Inl e \<Rightarrow> True | Inr r \<Rightarrow> status_of r = PStr ''error'')"
proof (cases "status_code response = 200")
  case False
  with assms(2) show ?thesis
    by (auto simp: after_response_def status_of_def dict_get_def)
next
  case True
  with assms(1) have nu: "\<not> all_uploaded response (map fst outputs)" by simp
  show ?thesis
  proof (cases "response_json response")
    case None
    with assms(2) True show ?thesis by (auto simp: after_response_def)
  next
    case (Some q)
    show ?thesis
    proof (cases "upload_results_of q")
      case (Inl e)
      with assms(2) True Some show ?thesis by (auto simp: after_response_def)
    next
      case (Inr u)
      with nu Some have "first_not_uploaded u (map fst outputs) \<noteq> Inr None"
        by (simp add: all_uploaded_iff)
      then show ?thesis
        using assms(2) True Some Inr
        by (cases "first_not_uploaded u (map fst outputs)")
           (auto simp: after_response_def status_of_def dict_get_def split: option.splits)
    qed
  qed
qed

lemma after_response_confirmed:
  assumes "status_code response = 200" "all_uploaded response [''OUTPUT'']"
    and "after_response env c f alg [(''OUTPUT'', info)] response w = (res, w')"
  shows "case res of
           Inl e \<Rightarrow> w' = w
         | Inr r \<Rightarrow> status_of r = PStr ''success''
                    \<and> (\<exists>row. map_layers w' = map_layers w @ [row]
                          \<and> dict_get r ''created_layers'' = PList [created_entry ''OUTPUT'' info (layer_id row)])"
proof -
  from assms(2) obtain q u where q: "response_json response = Some q" "upload_results_of q = Inr u"
    by (auto simp: all_uploaded_def upload_confirmed_def upload_results_of_def
        split: option.splits pyval.splits)
  from assms(2) have "first_not_uploaded u [''OUTPUT''] = Inr None"
    by (simp only: all_uploaded_iff[OF q])
  note q = q this
  obtain res1 w1 where cl: "create_layers env c [(''OUTPUT'', info)] w = (res1, w1)"
    by (cases "create_layers env c [(''OUTPUT'', info)] w")
  note single = create_layers_single[OF cl]
  show ?thesis
  proof (cases res1)
    case (Inl e)
    with single have "w1 = w" by simp
    then show ?thesis
      using assms(1,3) q cl Inl by (auto simp: after_response_def simp del: create_layers.simps)
  next
    case (Inr created)
    with single obtain row where row: "created = [created_entry ''OUTPUT'' info (layer_id row)]"
        "map_layers w1 = map_layers w @ [row]"
      by auto
    show ?thesis
      using assms(1,3) q cl Inr row
      by (auto simp: after_response_def status_of_def dict_get_def simp del: create_layers.simps)
  qed
qed

lemma run_geoprocessing_tool_unfold:
  assumes args: "json_loads env (tc_arguments tc) = Some (PDict d)"
    and tool: "find (\<lambda>tool. fst tool = tc_name tc) (get_tools env) = Some tool_def"
    and prep: "prepare_request env c (replace_char (CHR ''_'') (CHR '':'') (fst tool_def)) (snd tool_def)
                 (dict_set (dict_set d ''map_id'' (PStr (map_id c))) ''user_uuid'' (PStr (user_id c))) w
               = Inr (request, outputs)"
    and resp: "qgis_post env w request = Inr response"
    and ar: "after_response env c (tc_name tc) (replace_char (CHR ''_'') (CHR '':'') (fst tool_def))
               outputs response w = (res, w')"
  shows "run_geoprocessing_tool env c tc w =
           (case res of
              Inl e \<Rightarrow> (Inr (geoprocessing_error (replace_char (CHR ''_'') (CHR '':'') (fst tool_def)) e), w')
            | Inr r \<Rightarrow> (Inr r, w'))"
  using args tool prep resp ar
  by (simp add: run_geoprocessing_tool_def geoprocessing_body_def Let_def split: sum.splits)

lemmas example_defs =
  example_env_def w_start_def c_M1_def map_M1_def layer_A_def layer_N_def ok_response_def

lemmas python_defs =
  dict_get_def dict_get_default_def as_dict_def as_text_def subscript0_def py_len_def py_iter_def
  as_number_def item_def is_str_def is_dict_def hashable_def lower_def lower_char_def str_count_def
  replace_char_def strip_def is_space_def contains_key_def

lemmas geo_defs =
  run_geoprocessing_tool_def geoprocessing_body_def prepare_request_def after_response_def
  upload_results_of_def output_uploaded_def is_layer_id_def layer_s3_key_def internal_upload_layer_def
  geoprocessing_error_def append_layer_to_map_def

lemma map_messages_redis_set [simp]: "map_messages m (redis_set k v ex w) = map_messages m w"
  by (simp add: map_messages_def redis_set_def)

lemma map_messages_redis [simp]: "map_messages m (w\<lparr>redis := r\<rparr>) = map_messages m w"
  by (simp add: map_messages_def)

lemma map_messages_add_any:
  "map_messages m (add_chat_completion_message c msg w)
     = map_messages m w @ (if map_id c = m then [msg] else [])"
  by (simp add: map_messages_def add_chat_completion_message_def)

lemma fold_system_messages:
  "map_id c = m \<Longrightarrow>
   map_messages m (fold (\<lambda>system_msg. add_chat_completion_message c (SystemMessage system_msg)) sys w)
     = map_messages m w @ map SystemMessage sys"
  by (induction sys arbitrary: w) (simp_all add: map_messages_add_any)

lemma fold_system_messages_redis [simp]:
  "redis (fold (\<lambda>system_msg. add_chat_completion_message c (SystemMessage system_msg)) sys w) = redis w"
  by (induction sys arbitrary: w) simp_all

lemma lock_key_not_cancelled_key [simp]: "lock_key m \<noteq> cancelled_key m'" "cancelled_key m' \<noteq> lock_key m"
  by (simp_all add: lock_key_def cancelled_key_def)

lemma new_events_append [simp]: "events w' = events w @ evs \<Longrightarrow> new_events w w' = evs"
  by (simp add: new_events_def)

lemma answered_assistant_block:
  "length rs = length tcs \<Longrightarrow> invocations choice = tcs \<Longrightarrow>
     answered [] (AssistantMessage choice # tool_messages tcs rs)"
  using answered_tool_messages[of rs tcs "[]" "[]"] by simp

lemma iteration_summary:
  assumes it: "iteration env c w = (ctl, w')"
  shows "\<exists>evs app.
           events w' = events w @ RedisGet (cancelled_key (map_id c)) # evs
         \<and> RedisGet (cancelled_key (map_id c)) \<notin> set evs
         \<and> RedisDelete (lock_key (map_id c)) \<notin> set evs
         \<and> map_messages (map_id c) w' = map_messages (map_id c) w @ app
         \<and> redis w' (lock_key (map_id c)) = redis w (lock_key (map_id c))
         \<and> (llm_requests evs = [] \<or> llm_requests evs = [map_messages (map_id c) w])
         \<and> (cancelled c w \<longrightarrow> ctl = Break \<and> evs = [RedisDelete (cancelled_key (map_id c))] \<and> app = []
                \<and> redis w' = (redis w)(cancelled_key (map_id c) := None))
         \<and> (\<not> cancelled c w \<longrightarrow> redis w' = redis w)
         \<and> (ctl = Continue \<longrightarrow> llm_requests evs = [map_messages (map_id c) w])
         \<and> ((\<exists>e. ctl = Raise e) \<or> (answered [] app \<and> started evs = invoked app))"
proof -
  let ?ck = "cancelled_key (map_id c)"
  let ?m = "map_id c"
  let ?ms = "map_messages ?m w"
  let ?w1 = "w\<lparr>events := events w @ [RedisGet ?ck]\<rparr>"
  let ?w2 = "w\<lparr>events := events w @ [RedisGet ?ck, ChatCompletionsCreate ?ms (tools_payload env)]\<rparr>"
  note cases = iteration_cases[OF it]
  show ?thesis
  proof (cases "cancelled c w")
    case True
    with cases have "ctl = Break" "w' = redis_delete ?ck ?w1"
      by (auto simp: cancelled_def)
    with True show ?thesis
      by (simp add: redis_delete_def map_messages_def)
  next
    case nc: False
    then have nt: "\<not> redis_truthy (map_option fst (redis w ?ck))" by (simp add: cancelled_def)
    from cases nt consider
        (fetch) e where "ctl = Raise e" "w' = ?w1"
      | (model) "ctl = Break" "w' = ?w2\<lparr>events := events ?w2 @ [NotifyError]\<rparr>"
      | (nochoice) "ctl = Raise IndexError" "w' = ?w2"
      | (notools) choice where "invocations choice = []" "ctl = Break"
            "w' = add_chat_completion_message c (AssistantMessage choice) ?w2"
      | (tools) choice out where "invocations choice \<noteq> []"
            "dispatch_all env c (invocations choice)
               (add_chat_completion_message c (AssistantMessage choice) ?w2) = (out, w')"
            "ctl = (case out of None \<Rightarrow> Continue | Some e \<Rightarrow> Raise e)"
      by blast
    then show ?thesis
    proof cases
      case fetch
      with nc show ?thesis by simp
    next
      case model
      with nc show ?thesis by simp
    next
      case nochoice
      with nc show ?thesis by simp
    next
      case notools
      with nc show ?thesis by simp
    next
      case tools
      let ?w3 = "add_chat_completion_message c (AssistantMessage choice) ?w2"
      let ?tcs = "invocations choice"
      show ?thesis
      proof (cases out)
        case None
        from dispatch_all_None[OF tools(2)[unfolded None]] obtain rs where
          r: "redis w' = redis ?w3"
          and e: "events w' = events ?w3 @ map (\<lambda>tc. ToolCallStarted (tc_name tc)) ?tcs"
          and l: "length rs = length ?tcs"
          and m: "chat_completion_messages w' =
                    chat_completion_messages ?w3 @ map (\<lambda>(tc, r). tool_row c tc r) (zip ?tcs rs)"
          by blast
        have mm: "map_messages ?m w' = ?ms @ AssistantMessage choice # tool_messages ?tcs rs"
          using map_messages_append[OF m, of ?m] by (simp add: map_messages_tool_rows)
        have ans: "answered [] (AssistantMessage choice # tool_messages ?tcs rs)"
          by (rule answered_assistant_block[OF l refl])
        let ?evs = "ChatCompletionsCreate ?ms (tools_payload env) # map (\<lambda>tc. ToolCallStarted (tc_name tc)) ?tcs"
        have ev: "events w' = events w @ RedisGet ?ck # ?evs" using e by simp
        have notin: "RedisGet ?ck \<notin> set ?evs" "RedisDelete (lock_key ?m) \<notin> set ?evs" by auto
        have st: "started ?evs = invoked (AssistantMessage choice # tool_messages ?tcs rs)"
          by simp
        have lr: "llm_requests ?evs = [?ms]" by simp
        show ?thesis
          using ev notin mm ans st lr r nc tools(3) None
          by (intro exI[of _ ?evs] exI[of _ "AssistantMessage choice # tool_messages ?tcs rs"]) simp
      next
        case (Some e)
        from dispatch_all_Some[OF tools(2)[unfolded Some]] obtain evs k rs where
          r: "redis w' = redis ?w3"
          and e: "events w' = events ?w3 @ evs" "llm_requests evs = []" "set evs \<subseteq> ToolCallStarted ` UNIV"
          and m: "chat_completion_messages w' =
                    chat_completion_messages ?w3 @ map (\<lambda>(tc, r). tool_row c tc r) (zip (take k ?tcs) rs)"
          by blast
        have mm: "map_messages ?m w' = ?ms @ AssistantMessage choice # tool_messages (take k ?tcs) rs"
          using map_messages_append[OF m, of ?m] by (simp add: map_messages_tool_rows)
        let ?evs = "ChatCompletionsCreate ?ms (tools_payload env) # evs"
        have ev: "events w' = events w @ RedisGet ?ck # ?evs" using e by simp
        have notin: "RedisGet ?ck \<notin> set ?evs" "RedisDelete (lock_key ?m) \<notin> set ?evs"
          using e(3) by auto
        have lr: "llm_requests ?evs = [?ms]" using e(2) by simp
        show ?thesis
          using ev notin mm lr r nc tools(3) Some
          by (intro exI[of _ ?evs] exI[of _ "AssistantMessage choice # tool_messages (take k ?tcs) rs"]) simp
      qed
    qed
  qed
qed

lemma for_range_summary:
  "for_range env c n w = (out, w') \<Longrightarrow>
     \<exists>evs app.
         events w' = events w @ evs
       \<and> map_messages (map_id c) w' = map_messages (map_id c) w @ app
       \<and> RedisDelete (lock_key (map_id c)) \<notin> set evs
       \<and> redis w' (lock_key (map_id c)) = redis w (lock_key (map_id c))
       \<and> length (llm_requests evs) \<le> n
       \<and> (\<forall>req \<in> set (llm_requests evs). \<exists>pre. req = map_messages (map_id c) w @ pre \<and> answered [] pre)
       \<and> (out = None \<longrightarrow> answered [] app \<and> started evs = invoked app)"
proof (induction n arbitrary: w)
  case 0
  then show ?case by simp
next
  case (Suc n)
  let ?m = "map_id c"
  let ?ck = "cancelled_key ?m"
  obtain ctl w1 where it: "iteration env c w = (ctl, w1)" by (cases "iteration env c w")
  from iteration_summary[OF it] obtain evs1 app1 where
    e1: "events w1 = events w @ RedisGet ?ck # evs1"
    and d1: "RedisDelete (lock_key ?m) \<notin> set evs1"
    and m1: "map_messages ?m w1 = map_messages ?m w @ app1"
    and r1: "redis w1 (lock_key ?m) = redis w (lock_key ?m)"
    and l1: "llm_requests evs1 = [] \<or> llm_requests evs1 = [map_messages ?m w]"
    and a1: "(\<exists>e. ctl = Raise e) \<or> (answered [] app1 \<and> started evs1 = invoked app1)"
    by blast
  have req1: "\<forall>req \<in> set (llm_requests evs1). \<exists>pre. req = map_messages ?m w @ pre \<and> answered [] pre"
    using l1 by auto
  have len1: "length (llm_requests evs1) \<le> 1" using l1 by auto
  show ?case
  proof (cases ctl)
    case Break
    with Suc.prems it have "out = None" "w' = w1" by simp_all
    with e1 d1 m1 r1 req1 len1 a1 Break show ?thesis
      by (intro exI[of _ "RedisGet ?ck # evs1"] exI[of _ app1]) auto
  next
    case (Raise e)
    with Suc.prems it have "out = Some e" "w' = w1" by simp_all
    with e1 d1 m1 r1 req1 len1 show ?thesis
      by (intro exI[of _ "RedisGet ?ck # evs1"] exI[of _ app1]) auto
  next
    case Continue
    with Suc.prems it have rest: "for_range env c n w1 = (out, w')" by simp
    from a1 Continue have ans1: "answered [] app1" and st1: "started evs1 = invoked app1" by simp_all
    from Suc.IH[OF rest] obtain evs2 app2 where
      e2: "events w' = events w1 @ evs2"
      and m2: "map_messages ?m w' = map_messages ?m w1 @ app2"
      and d2: "RedisDelete (lock_key ?m) \<notin> set evs2"
      and r2: "redis w' (lock_key ?m) = redis w1 (lock_key ?m)"
      and len2: "length (llm_requests evs2) \<le> n"
      and req2: "\<forall>req \<in> set (llm_requests evs2). \<exists>pre. req = map_messages ?m w1 @ pre \<and> answered [] pre"
      and a2: "out = None \<longrightarrow> answered [] app2 \<and> started evs2 = invoked app2"
      by blast
    have req2': "\<forall>req \<in> set (llm_requests evs2). \<exists>pre. req = map_messages ?m w @ pre \<and> answered [] pre"
    proof
      fix req assume "req \<in> set (llm_requests evs2)"
      with req2 obtain pre where "req = map_messages ?m w1 @ pre" "answered [] pre" by blast
      then have "req = map_messages ?m w @ (app1 @ pre) \<and> answered [] (app1 @ pre)"
        using m1 ans1 by (simp add: answered_append)
      then show "\<exists>pre. req = map_messages ?m w @ pre \<and> answered [] pre" by blast
    qed
    have fin: "out = None \<longrightarrow> answered [] (app1 @ app2) \<and>
               started (RedisGet ?ck # evs1 @ evs2) = invoked (app1 @ app2)"
      using a2 ans1 st1 by (simp add: answered_append)
    show ?thesis
      using e1 e2 m1 m2 d1 d2 r1 r2 len1 len2 req1 req2' fin
      by (intro exI[of _ "RedisGet ?ck # evs1 @ evs2"] exI[of _ "app1 @ app2"]) auto
  qed
qed

text \<open>The task's local variable has no part in the transcript, the flags or the calls.\<close>

lemma limited_query_frame [simp]:
  "map_messages m (w\<lparr>limited_query := q\<rparr>) = map_messages m w"
  "cancelled c (w\<lparr>limited_query := q\<rparr>) = cancelled c w"
  "get_all_map_messages m su (w\<lparr>limited_query := q\<rparr>) = get_all_map_messages m su w"
  by (simp_all add: map_messages_def cancelled_def get_all_map_messages_def split: option.splits)

lemma for_range_summary_task:
  assumes "for_range env c n (w\<lparr>limited_query := q\<rparr>) = (out, w')"
  shows "\<exists>evs app.
         events w' = events w @ evs
       \<and> map_messages (map_id c) w' = map_messages (map_id c) w @ app
       \<and> RedisDelete (lock_key (map_id c)) \<notin> set evs
       \<and> redis w' (lock_key (map_id c)) = redis w (lock_key (map_id c))
       \<and> length (llm_requests evs) \<le> n
       \<and> (\<forall>req \<in> set (llm_requests evs). \<exists>pre. req = map_messages (map_id c) w @ pre \<and> answered [] pre)
       \<and> (out = None \<longrightarrow> answered [] app \<and> started evs = invoked app)"
  using for_range_summary[OF assms] by simp

lemma task_unfold:
  "for_range env c 25 (w\<lparr>limited_query := None\<rparr>) = (out1, w1) \<Longrightarrow>
   process_chat_interaction_task env c w =
     (case out1 of
        None \<Rightarrow> (None, redis_delete (lock_key (map_id c)) w1)
      | Some e \<Rightarrow> (Some e, w1))"
  by (simp add: process_chat_interaction_task_def split: option.splits)

lemma for_range_numeral:
  "for_range env c (numeral k) w =
     (case iteration env c w of
        (Break, w1) \<Rightarrow> (None, w1)
      | (Raise e, w1) \<Rightarrow> (Some e, w1)
      | (Continue, w1) \<Rightarrow> for_range env c (pred_numeral k) w1)"
  by (simp add: numeral_eq_Suc)

lemmas loop_defs =
  process_chat_interaction_task_def iteration_def dispatch_def redis_get_def redis_delete_def redis_set_def
  redis_truthy_def get_all_map_messages_def add_chat_completion_message_def reply_def tools_payload_def
  core_tool_names_def geoprocessing_function_names_def cancelled_key_def lock_key_def error_result_def

lemmas handler_defs =
  add_layer_to_map_def zoom_to_bounds_def invalid_bounds_def set_active_style_def query_duckdb_sql_def
  layer_exists_def update_layer_name_def download_from_openstreetmap_tool_def append_layer_to_map_def


lemma cancelled_redis: "redis w' = redis w \<Longrightarrow> cancelled c w' = cancelled c w"
  by (simp add: cancelled_def)

lemma iteration_always_invokes:
  assumes ai: "always_invokes env" and nc: "\<not> cancelled c w" and it: "iteration env c w = (ctl, w')"
  shows "ctl \<noteq> Break"
proof -
  let ?ck = "cancelled_key (map_id c)"
  let ?w1 = "w\<lparr>events := events w @ [RedisGet ?ck]\<rparr>"
  let ?ms = "map_messages (map_id c) w"
  from ai have a: "case chat_completions_create env ?w1 ?ms (tools_payload env) of
                     Inl e \<Rightarrow> False
                   | Inr choices \<Rightarrow> (case choices of [] \<Rightarrow> False | choice # rest \<Rightarrow> invocations choice \<noteq> [])"
    unfolding always_invokes_def by blast
  from iteration_cases[OF it] nc a show ?thesis
    by (auto simp: cancelled_def split: option.splits)
qed

lemma for_range_always_invokes:
  "always_invokes env \<Longrightarrow> \<not> cancelled c w \<Longrightarrow> for_range env c n w = (None, w') \<Longrightarrow>
     \<exists>evs. events w' = events w @ evs \<and> length (llm_requests evs) = n"
proof (induction n arbitrary: w)
  case 0
  then show ?case by simp
next
  case (Suc n)
  obtain ctl w1 where it: "iteration env c w = (ctl, w1)" by (cases "iteration env c w")
  have nb: "ctl \<noteq> Break" by (rule iteration_always_invokes[OF Suc.prems(1,2) it])
  with Suc.prems(3) it have ctl: "ctl = Continue" and rest: "for_range env c n w1 = (None, w')"
    by (cases ctl; simp)+
  from iteration_summary[OF it] ctl Suc.prems(2) obtain evs1 where
    e1: "events w1 = events w @ RedisGet (cancelled_key (map_id c)) # evs1"
    and l1: "llm_requests evs1 = [map_messages (map_id c) w]"
    and r1: "redis w1 = redis w"
    by auto
  have nc1: "\<not> cancelled c w1" using Suc.prems(2) cancelled_redis[OF r1] by simp
  from Suc.IH[OF Suc.prems(1) nc1 rest] obtain evs2 where
    e2: "events w' = events w1 @ evs2" and l2: "length (llm_requests evs2) = n"
    by blast
  show ?case
    using e1 e2 l1 l2
    by (intro exI[of _ "RedisGet (cancelled_key (map_id c)) # evs1 @ evs2"]) simp
qed

lemma always_zoom_iteration:
  assumes "user_mundiai_maps w ''M1'' = Some mr" "\<not> soft_deleted mr" "owner_uuid mr = ''u1''"
    and "\<not> cancelled c_M1 w"
  shows "\<exists>w1. iteration always_zoom_env c_M1 w = (Continue, w1)
              \<and> user_mundiai_maps w1 = user_mundiai_maps w \<and> redis w1 = redis w"
  using assms
  by (simp add: cancelled_def always_zoom_env_def zoom_message_def zoom_call_def example_loads_def
      example_env_def c_M1_def python_defs loop_defs handler_defs Let_def)

lemma always_zoom_for_range:
  assumes "user_mundiai_maps w ''M1'' = Some mr" "\<not> soft_deleted mr" "owner_uuid mr = ''u1''"
    and "\<not> cancelled c_M1 w"
  shows "fst (for_range always_zoom_env c_M1 n w) = None"
  using assms
proof (induction n arbitrary: w)
  case 0
  then show ?case by simp
next
  case (Suc n)
  from always_zoom_iteration[OF Suc.prems] obtain w1 where
    it: "iteration always_zoom_env c_M1 w = (Continue, w1)"
    and m: "user_mundiai_maps w1 = user_mundiai_maps w" and r: "redis w1 = redis w"
    by blast
  have "fst (for_range always_zoom_env c_M1 n w1) = None"
    using Suc.IH[of w1] Suc.prems m cancelled_redis[OF r] by simp
  then show ?case using it by simp
qed

lemma iteration_cancelled:
  "cancelled c w \<Longrightarrow>
   iteration env c w =
     (Break, redis_delete (cancelled_key (map_id c)) (w\<lparr>events := events w @ [RedisGet (cancelled_key (map_id c))]\<rparr>))"
  by (simp add: iteration_def redis_get_def cancelled_def)

lemma cancel_map_message_sets_flag:
  "authorised w (map_id c) session_user \<Longrightarrow>
   cancel_map_message (map_id c) session_user w =
     (Inr [(''status'', PStr ''cancelled'')], redis_set (cancelled_key (map_id c)) ''true'' 300 w)
   \<and> cancelled c (redis_set (cancelled_key (map_id c)) ''true'' 300 w)"
  by (auto simp: authorised_def cancel_map_message_def cancelled_def redis_set_def redis_truthy_def
      split: option.splits)

lemma dispatch_unknown:
  "\<not> dispatchable env (tc_name tc) \<Longrightarrow>
   dispatch env c tc w =
     (case json_loads env (tc_arguments tc) of
        None \<Rightarrow> (Some JSONDecodeError, w)
      | Some tool_args \<Rightarrow> (Some (HTTPException 400), w\<lparr>events := events w @ [ToolCallStarted (tc_name tc)]\<rparr>))"
  by (auto simp: dispatchable_def dispatch_def core_tool_names_def Let_def split: option.splits)





text \<open>
  A round whose invocation \<open>k\<close> names a tool without a branch: it ends at \<open>k\<close> with that
  invocation's exception, every earlier invocation answered, unless an earlier
  invocation \<open>j\<close> raised; the handlers started are those of the first \<open>j\<close> invocations
  and possibly of the one that raised.
\<close>

lemma dispatch_all_aborts:
  "k < length tcs \<Longrightarrow> \<not> dispatchable env (tc_name (tcs ! k)) \<Longrightarrow>
   dispatch_all env c tcs w = (out, w') \<Longrightarrow>
     redis w' = redis w
     \<and> (\<exists>j rs extra. j \<le> k \<and> length rs = j
           \<and> chat_completion_messages w' =
               chat_completion_messages w @ map (\<lambda>(tc, r). tool_row c tc r) (zip (take j tcs) rs)
           \<and> events w' = events w @ map (\<lambda>tc. ToolCallStarted (tc_name tc)) (take j tcs) @ extra
           \<and> (extra = [] \<or> extra = [ToolCallStarted (tc_name (tcs ! j))])
           \<and> (if j = k
               then out = Some (unknown_tool_exception env (tcs ! k))
                    \<and> (extra = [] \<longleftrightarrow> json_loads env (tc_arguments (tcs ! k)) = None)
               else \<exists>e wj. out = Some e \<and> fst (dispatch env c (tcs ! j) wj) = Some e))"
proof (induction tcs arbitrary: k w)
  case Nil
  then show ?case by simp
next
  case (Cons tc tcs)
  obtain o1 w1 where d: "dispatch env c tc w = (o1, w1)" by (cases "dispatch env c tc w")
  note eff = dispatch_effect[OF d]
  show ?case
  proof (cases o1)
    case (Some e)
    with d Cons.prems(3) have ow: "out = Some e" "w' = w1" by simp_all
    from eff Some have f: "redis w1 = redis w"
      "chat_completion_messages w1 = chat_completion_messages w"
      "events w1 = events w \<or> events w1 = events w @ [ToolCallStarted (tc_name tc)]"
      by auto
    define extra where "extra = drop (length (events w)) (events w1)"
    have ex: "events w1 = events w @ extra" "extra = [] \<or> extra = [ToolCallStarted (tc_name tc)]"
      using f(3) by (auto simp: extra_def)
    have last: "if 0 = k
               then out = Some (unknown_tool_exception env ((tc # tcs) ! k))
                    \<and> (extra = [] \<longleftrightarrow> json_loads env (tc_arguments ((tc # tcs) ! k)) = None)
               else \<exists>e wj. out = Some e \<and> fst (dispatch env c ((tc # tcs) ! 0) wj) = Some e"
    proof (cases "k = 0")
      case True
      with Cons.prems(2) have "\<not> dispatchable env (tc_name tc)" by simp
      from dispatch_unknown[OF this, of c w] d Some ow ex True show ?thesis
        by (auto simp: unknown_tool_exception_def split: option.splits)
    next
      case False
      with d Some ow show ?thesis by (auto intro!: exI[of _ w])
    qed
    have b: "(0::nat) \<le> k \<and> length ([] :: pydict list) = 0
           \<and> chat_completion_messages w' =
               chat_completion_messages w @ map (\<lambda>(tc, r). tool_row c tc r) (zip (take 0 (tc # tcs)) [])
           \<and> events w' = events w @ map (\<lambda>tc. ToolCallStarted (tc_name tc)) (take 0 (tc # tcs)) @ extra
           \<and> (extra = [] \<or> extra = [ToolCallStarted (tc_name ((tc # tcs) ! 0))])
           \<and> (if 0 = k
               then out = Some (unknown_tool_exception env ((tc # tcs) ! k))
                    \<and> (extra = [] \<longleftrightarrow> json_loads env (tc_arguments ((tc # tcs) ! k)) = None)
               else \<exists>e wj. out = Some e \<and> fst (dispatch env c ((tc # tcs) ! 0) wj) = Some e)"
      using f(2) ex last ow(2) by simp
    from b have B: "\<exists>j rs extra. j \<le> k \<and> length rs = j
           \<and> chat_completion_messages w' =
               chat_completion_messages w @ map (\<lambda>(tc, r). tool_row c tc r) (zip (take j (tc # tcs)) rs)
           \<and> events w' = events w @ map (\<lambda>tc. ToolCallStarted (tc_name tc)) (take j (tc # tcs)) @ extra
           \<and> (extra = [] \<or> extra = [ToolCallStarted (tc_name ((tc # tcs) ! j))])
           \<and> (if j = k
               then out = Some (unknown_tool_exception env ((tc # tcs) ! k))
                    \<and> (extra = [] \<longleftrightarrow> json_loads env (tc_arguments ((tc # tcs) ! k)) = None)
               else \<exists>e wj. out = Some e \<and> fst (dispatch env c ((tc # tcs) ! j) wj) = Some e)"
      by blast
    show ?thesis using f(1) ow(2) B by simp
  next
    case None
    have "k \<noteq> 0"
    proof
      assume "k = 0"
      with Cons.prems(2) have "\<not> dispatchable env (tc_name tc)" by simp
      from dispatch_unknown[OF this, of c w] d None show False
        by (simp split: option.splits)
    qed
    then obtain k' where k: "k = Suc k'" by (cases k) auto
    from d None Cons.prems(3) have rest: "dispatch_all env c tcs w1 = (out, w')" by simp
    from eff None obtain r where
      1: "redis w1 = redis w" "events w1 = events w @ [ToolCallStarted (tc_name tc)]"
         "chat_completion_messages w1 = chat_completion_messages w @ [tool_row c tc r]"
      by auto
    from Cons.IH[OF _ _ rest, of k'] Cons.prems(1,2) k obtain j rs extra where
      2: "redis w' = redis w1" "j \<le> k'" "length rs = j"
         "chat_completion_messages w' =
            chat_completion_messages w1 @ map (\<lambda>(tc, r). tool_row c tc r) (zip (take j tcs) rs)"
         "events w' = events w1 @ map (\<lambda>tc. ToolCallStarted (tc_name tc)) (take j tcs) @ extra"
         "extra = [] \<or> extra = [ToolCallStarted (tc_name (tcs ! j))]"
         "if j = k'
          then out = Some (unknown_tool_exception env (tcs ! k'))
               \<and> (extra = [] \<longleftrightarrow> json_loads env (tc_arguments (tcs ! k')) = None)
          else \<exists>e wj. out = Some e \<and> fst (dispatch env c (tcs ! j) wj) = Some e"
      by auto
    have b: "Suc j \<le> k \<and> length (r # rs) = Suc j
           \<and> chat_completion_messages w' =
               chat_completion_messages w @ map (\<lambda>(tc, r). tool_row c tc r) (zip (take (Suc j) (tc # tcs)) (r # rs))
           \<and> events w' = events w @ map (\<lambda>tc. ToolCallStarted (tc_name tc)) (take (Suc j) (tc # tcs)) @ extra
           \<and> (extra = [] \<or> extra = [ToolCallStarted (tc_name ((tc # tcs) ! Suc j))])
           \<and> (if Suc j = k
               then out = Some (unknown_tool_exception env ((tc # tcs) ! k))
                    \<and> (extra = [] \<longleftrightarrow> json_loads env (tc_arguments ((tc # tcs) ! k)) = None)
               else \<exists>e wj. out = Some e \<and> fst (dispatch env c ((tc # tcs) ! Suc j) wj) = Some e)"
      using 1 2 k by (auto split: if_splits)
    have r: "redis w' = redis w" using 1 2 by simp
    from b have B: "\<exists>j rs extra. j \<le> k \<and> length rs = j
           \<and> chat_completion_messages w' =
               chat_completion_messages w @ map (\<lambda>(tc, r). tool_row c tc r) (zip (take j (tc # tcs)) rs)
           \<and> events w' = events w @ map (\<lambda>tc. ToolCallStarted (tc_name tc)) (take j (tc # tcs)) @ extra
           \<and> (extra = [] \<or> extra = [ToolCallStarted (tc_name ((tc # tcs) ! j))])
           \<and> (if j = k
               then out = Some (unknown_tool_exception env ((tc # tcs) ! k))
                    \<and> (extra = [] \<longleftrightarrow> json_loads env (tc_arguments ((tc # tcs) ! k)) = None)
               else \<exists>e wj. out = Some e \<and> fst (dispatch env c ((tc # tcs) ! j) wj) = Some e)"
      by blast
    show ?thesis using r B by simp
  qed
qed

text \<open>
  The lock and the way the task ends: a task that ends without an exception has
  deleted the lock exactly once, as its last call; a task that an exception leaves has
  not deleted it.
\<close>

lemma lock_released_iff_no_exception:
  "case process_chat_interaction_task env c w of
     (out, w') \<Rightarrow>
       (case out of
          None \<Rightarrow>
            redis w' (lock_key (map_id c)) = None
            \<and> count_list (new_events w w') (RedisDelete (lock_key (map_id c))) = 1
            \<and> last (events w') = RedisDelete (lock_key (map_id c))
        | Some e \<Rightarrow>
            redis w' (lock_key (map_id c)) = redis w (lock_key (map_id c))
            \<and> count_list (new_events w w') (RedisDelete (lock_key (map_id c))) = 0)"
proof -
  obtain out1 w1 where fr: "for_range env c 25 (w\<lparr>limited_query := None\<rparr>) = (out1, w1)"
    by (cases "for_range env c 25 (w\<lparr>limited_query := None\<rparr>)")
  from for_range_summary_task[OF fr] obtain evs where
    e: "events w1 = events w @ evs"
    and d: "RedisDelete (lock_key (map_id c)) \<notin> set evs"
    and r: "redis w1 (lock_key (map_id c)) = redis w (lock_key (map_id c))"
    by blast
  show ?thesis
  proof (cases out1)
    case (Some e1)
    with task_unfold[OF fr] have p: "process_chat_interaction_task env c w = (Some e1, w1)"
      by simp
    show ?thesis unfolding p using d r by (simp add: new_events_append[OF e])
  next
    case None
    with task_unfold[OF fr] have p: "process_chat_interaction_task env c w = (None, redis_delete (lock_key (map_id c)) w1)"
      by simp
    have e': "events (redis_delete (lock_key (map_id c)) w1) = events w @ (evs @ [RedisDelete (lock_key (map_id c))])"
      using e by (simp add: redis_delete_def)
    note ne = new_events_append[OF e']
    have rd: "redis (redis_delete (lock_key (map_id c)) w1) (lock_key (map_id c)) = None"
      by (simp add: redis_delete_def)
    have la: "last (events (redis_delete (lock_key (map_id c)) w1)) = RedisDelete (lock_key (map_id c))"
      by (simp add: redis_delete_def)
    show ?thesis unfolding p using d by (simp add: ne rd la)
  qed
qed

section \<open>The claims\<close>

text \<open>
  Claim C1 at a failing input.  The model names a tool the dispatch does not know; the
  exception leaves the loop and the task, the statement that unlocks the map is never
  reached, and the lock that was held when the task started is still set.
\<close>

theorem lock_kept_when_dispatch_raises:
  "lock_held w_start ''M1''
   \<and> fst (process_chat_interaction_task always_bogus_env c_M1 w_start) = Some (HTTPException 400)
   \<and> redis (snd (process_chat_interaction_task always_bogus_env c_M1 w_start)) (lock_key ''M1'')
       = Some (''locked'', 60)
   \<and> count_list (events (snd (process_chat_interaction_task always_bogus_env c_M1 w_start)))
        (RedisDelete (lock_key ''M1'')) = 0"
  by (simp add: lock_held_def always_bogus_env_def bogus_message_def bogus_call_def
      example_loads_def example_defs python_defs loop_defs handler_defs for_range_numeral Let_def)




text \<open>
  Claim C3 at a failing input.  \<^verbatim>\<open>query_duckdb_sql\<close> is in the catalog; invoked
  with an empty \<^verbatim>\<open>layer_ids\<close> list, the handler raises \<^verbatim>\<open>IndexError\<close> at
  \<^verbatim>\<open>tool_args.get("layer_ids", [None])[0]\<close>, outside every \<^verbatim>\<open>try\<close>.  No tool
  message is appended for the invocation, the next invocation of the round is not
  dispatched, and the exception ends the task.
\<close>

theorem duckdb_empty_layer_ids_escapes:
  "''query_duckdb_sql'' \<in> set (tools_payload duckdb_then_attach_env)
   \<and> dispatch duckdb_then_attach_env c_M1 empty_layer_ids_call w_start
       = (Some IndexError, w_start\<lparr>events := [ToolCallStarted ''query_duckdb_sql'']\<rparr>)
   \<and> fst (process_chat_interaction_task duckdb_then_attach_env c_M1 w_start) = Some IndexError
   \<and> map_messages ''M1'' (snd (process_chat_interaction_task duckdb_then_attach_env c_M1 w_start))
       = [UserMessage (PStr ''Hello''), AssistantMessage duckdb_then_attach_message]
   \<and> started (events (snd (process_chat_interaction_task duckdb_then_attach_env c_M1 w_start)))
       = [''query_duckdb_sql'']"
  by (simp add: duckdb_then_attach_env_def duckdb_then_attach_message_def empty_layer_ids_call_def
      attach_call_def example_loads_def example_defs python_defs loop_defs handler_defs
      for_range_numeral Let_def map_messages_def)

text \<open>
  Claim C4, as stated, fails.  The dispatch goes by the tool's name, not by the catalog
  offered: without an OpenStreetMap key \<^verbatim>\<open>download_from_openstreetmap\<close> is not
  offered, yet an invocation of it is dispatched and answered, and the round goes on to
  the next invocation.  That one names a tool the dispatch does not know: the round
  ends with the exception, and the lock of the map is still set when the task has
  ended.
\<close>

theorem unknown_tool_aborts_round_counterexample:
  "''download_from_openstreetmap'' \<notin> set (tools_payload osm_then_bogus_env)
   \<and> fst (process_chat_interaction_task osm_then_bogus_env c_M1 w_start) = Some (HTTPException 400)
   \<and> map_messages ''M1'' (snd (process_chat_interaction_task osm_then_bogus_env c_M1 w_start))
       = [UserMessage (PStr ''Hello''), AssistantMessage osm_then_bogus_message,
          ToolMessage ''call_7'' (error_result (PStr ''Missing required parameters for OpenStreetMap download.''))]
   \<and> started (events (snd (process_chat_interaction_task osm_then_bogus_env c_M1 w_start)))
       = [''download_from_openstreetmap'', ''launch_rocket'']
   \<and> redis (snd (process_chat_interaction_task osm_then_bogus_env c_M1 w_start)) (lock_key ''M1'')
       = Some (''locked'', 60)"
  by (simp add: osm_then_bogus_env_def osm_then_bogus_message_def osm_call_def bogus_call_def
      example_loads_def example_defs python_defs loop_defs handler_defs for_range_numeral Let_def
      map_messages_def)

text \<open>
  Claim C4, amended.  In a round that reaches the model, let the model's answer carry,
  at position \<open>k\<close>, an invocation of a tool for which the dispatch has no branch.  The
  loop ends in that round with an exception, and the one model call of the round is its
  last.  The transcript then holds the assistant message followed by the tool messages
  of the first \<open>j\<close> invocations, in order, and nothing for invocation \<open>j\<close> or any after
  it; the handlers started are those of the first \<open>j\<close> invocations and at most the one
  of invocation \<open>j\<close>, so no invocation after \<open>j\<close> is dispatched.  Either \<open>j = k\<close>: every
  earlier invocation has its result, and the exception is HTTP 400, or the decoding
  error when the arguments of invocation \<open>k\<close> do not parse (then its handler span is
  not started either).  Or \<open>j < k\<close>, and the exception is one that the dispatch of
  invocation \<open>j\<close> itself raises.
\<close>

theorem unknown_tool_aborts_round:
  assumes nc: "\<not> cancelled c w"
    and fetch: "get_all_map_messages (map_id c) (session_user_id c) w = Inr ms"
    and model: "chat_completions_create env (w\<lparr>events := events w @ [RedisGet (cancelled_key (map_id c))]\<rparr>)
                  ms (tools_payload env) = Inr (choice # rest)"
    and k: "k < length (invocations choice)"
    and unknown: "\<not> dispatchable env (tc_name (invocations choice ! k))"
  shows "case for_range env c (Suc n) w of
           (out, w') \<Rightarrow>
             llm_requests (new_events w w') = [ms]
             \<and> (\<exists>j rs dispatched. j \<le> k \<and> length rs = j
                   \<and> map_messages (map_id c) w' =
                       ms @ AssistantMessage choice # tool_messages (take j (invocations choice)) rs
                   \<and> started (new_events w w') = map tc_name (take dispatched (invocations choice))
                   \<and> (dispatched = j \<or> dispatched = Suc j)
                   \<and> (if j = k
                       then out = Some (unknown_tool_exception env (invocations choice ! k))
                            \<and> (dispatched = k \<longleftrightarrow> json_loads env (tc_arguments (invocations choice ! k)) = None)
                       else \<exists>e wj. out = Some e \<and> fst (dispatch env c (invocations choice ! j) wj) = Some e))"
proof -
  let ?ck = "cancelled_key (map_id c)"
  let ?m = "map_id c"
  let ?w2 = "w\<lparr>events := events w @ [RedisGet ?ck, ChatCompletionsCreate ms (tools_payload env)]\<rparr>"
  let ?w3 = "add_chat_completion_message c (AssistantMessage choice) ?w2"
  let ?tcs = "invocations choice"
  have ms: "ms = map_messages ?m w" by (rule get_all_map_messages_Inr[OF fetch])
  obtain ctl w1 where it: "iteration env c w = (ctl, w1)" by (cases "iteration env c w")
  from k have ne: "?tcs \<noteq> []" by auto
  from iteration_cases[OF it] nc fetch model ne obtain out where
    da: "dispatch_all env c ?tcs ?w3 = (out, w1)"
    and ctl: "ctl = (case out of None \<Rightarrow> Continue | Some e \<Rightarrow> Raise e)"
    unfolding ms by (auto simp: cancelled_def)
  from dispatch_all_aborts[OF k unknown da] obtain j rs extra where
    j: "j \<le> k" "length rs = j"
    and m: "chat_completion_messages w1 =
              chat_completion_messages ?w3 @ map (\<lambda>(tc, r). tool_row c tc r) (zip (take j ?tcs) rs)"
    and e: "events w1 = events ?w3 @ map (\<lambda>tc. ToolCallStarted (tc_name tc)) (take j ?tcs) @ extra"
    and x: "extra = [] \<or> extra = [ToolCallStarted (tc_name (?tcs ! j))]"
    and o: "if j = k
            then out = Some (unknown_tool_exception env (?tcs ! k))
                 \<and> (extra = [] \<longleftrightarrow> json_loads env (tc_arguments (?tcs ! k)) = None)
            else \<exists>e wj. out = Some e \<and> fst (dispatch env c (?tcs ! j) wj) = Some e"
    by blast
  from o obtain ex where out: "out = Some ex" by (auto split: if_splits)
  have fr: "for_range env c (Suc n) w = (out, w1)"
    using it ctl out by simp
  let ?evs = "[RedisGet ?ck, ChatCompletionsCreate ms (tools_payload env)]
                @ map (\<lambda>tc. ToolCallStarted (tc_name tc)) (take j ?tcs) @ extra"
  have ev: "events w1 = events w @ ?evs"
    using e by simp
  have mm: "map_messages ?m w1 = ms @ AssistantMessage choice # tool_messages (take j ?tcs) rs"
    using map_messages_append[OF m, of ?m] by (simp add: map_messages_tool_rows ms)
  have lr: "llm_requests ?evs = [ms]" using x by auto
  define dispatched where "dispatched = (if extra = [] then j else Suc j)"
  have jl: "j < length ?tcs" using j(1) k by simp
  have st: "started ?evs = map tc_name (take dispatched ?tcs)"
    using x jl by (auto simp: dispatched_def take_Suc_conv_app_nth)
  have d: "dispatched = j \<or> dispatched = Suc j" by (simp add: dispatched_def)
  have o': "if j = k
            then out = Some (unknown_tool_exception env (?tcs ! k))
                 \<and> (dispatched = k \<longleftrightarrow> json_loads env (tc_arguments (?tcs ! k)) = None)
            else \<exists>e wj. out = Some e \<and> fst (dispatch env c (?tcs ! j) wj) = Some e"
    using o by (auto simp: dispatched_def split: if_splits)
  have "\<exists>j rs dispatched. j \<le> k \<and> length rs = j
          \<and> map_messages ?m w1 = ms @ AssistantMessage choice # tool_messages (take j ?tcs) rs
          \<and> started ?evs = map tc_name (take dispatched ?tcs)
          \<and> (dispatched = j \<or> dispatched = Suc j)
          \<and> (if j = k
              then out = Some (unknown_tool_exception env (?tcs ! k))
                   \<and> (dispatched = k \<longleftrightarrow> json_loads env (tc_arguments (?tcs ! k)) = None)
              else \<exists>e wj. out = Some e \<and> fst (dispatch env c (?tcs ! j) wj) = Some e)"
    using j mm st d o' by blast
  then show ?thesis
    unfolding fr using lr by (simp add: new_events_append[OF ev])
qed

theorem unknown_tool_aborts_round_witness:
  "\<not> cancelled c_M1 w_start
   \<and> \<not> dispatchable zoom_then_bogus_env (tc_name (invocations zoom_then_bogus_message ! 1))
   \<and> (case for_range zoom_then_bogus_env c_M1 25 w_start of
        (out, w') \<Rightarrow>
          out = Some (HTTPException 400)
          \<and> llm_requests (new_events w_start w') = [[UserMessage (PStr ''Hello'')]]
          \<and> map_messages ''M1'' w' =
              [UserMessage (PStr ''Hello''), AssistantMessage zoom_then_bogus_message,
               ToolMessage ''call_1'' invalid_bounds]
          \<and> started (new_events w_start w') = [''zoom_to_bounds'', ''launch_rocket''])"
proof -
  have nc: "\<not> cancelled c_M1 w_start"
    by (simp add: cancelled_def w_start_def c_M1_def cancelled_key_def lock_key_def redis_truthy_def)
  have fetch: "get_all_map_messages (map_id c_M1) (session_user_id c_M1) w_start = Inr [UserMessage (PStr ''Hello'')]"
    by (simp add: get_all_map_messages_def w_start_def c_M1_def map_M1_def)
  have model: "chat_completions_create zoom_then_bogus_env
                 (w_start\<lparr>events := events w_start @ [RedisGet (cancelled_key (map_id c_M1))]\<rparr>)
                 [UserMessage (PStr ''Hello'')] (tools_payload zoom_then_bogus_env)
               = Inr (zoom_then_bogus_message # [])"
    by (simp add: zoom_then_bogus_env_def example_env_def)
  have k: "1 < length (invocations zoom_then_bogus_message)"
    by (simp add: invocations_def zoom_then_bogus_message_def)
  have unknown: "\<not> dispatchable zoom_then_bogus_env (tc_name (invocations zoom_then_bogus_message ! 1))"
    by (simp add: dispatchable_def invocations_def zoom_then_bogus_message_def bogus_call_def
        core_tool_names_def geoprocessing_function_names_def zoom_then_bogus_env_def example_env_def)
  have run: "fst (for_range zoom_then_bogus_env c_M1 25 w_start) = Some (HTTPException 400)
             \<and> map_messages ''M1'' (snd (for_range zoom_then_bogus_env c_M1 25 w_start)) =
              [UserMessage (PStr ''Hello''), AssistantMessage zoom_then_bogus_message,
               ToolMessage ''call_1'' invalid_bounds]
             \<and> started (new_events w_start (snd (for_range zoom_then_bogus_env c_M1 25 w_start)))
                 = [''zoom_to_bounds'', ''launch_rocket'']"
    by (simp add: zoom_then_bogus_env_def zoom_then_bogus_message_def zoom_call_def bogus_call_def
        example_loads_def example_defs python_defs loop_defs handler_defs for_range_numeral Let_def
        map_messages_def new_events_def)
  show ?thesis
    using unknown_tool_aborts_round[OF nc fetch model k unknown, of 24] nc unknown run
    by (auto split: prod.splits)
qed

text \<open>
  Claim C5, as stated, fails: a model whose every answer carries one invocation, of a
  tool the dispatch has no branch for, makes the first round raise; with no
  cancellation requested the run has one round, not 25.
\<close>

theorem loop_runs_25_rounds_counterexample:
  "always_invokes always_bogus_env \<and> \<not> cancelled c_M1 w_start
   \<and> fst (process_chat_interaction_task always_bogus_env c_M1 w_start) = Some (HTTPException 400)
   \<and> length (llm_requests (new_events w_start (snd (process_chat_interaction_task always_bogus_env c_M1 w_start)))) = 1
   \<and> redis (snd (process_chat_interaction_task always_bogus_env c_M1 w_start)) (lock_key ''M1'') = Some (''locked'', 60)"
  by (simp add: always_invokes_def cancelled_def new_events_def invocations_def
      always_bogus_env_def bogus_message_def bogus_call_def
      example_loads_def example_defs python_defs loop_defs handler_defs for_range_numeral Let_def)

text \<open>
  Claim C5, amended.  No run calls the model more than 25 times.  A run that ends
  without an exception, in which the model's answer always carries at least one
  invocation and the cancellation flag is not set, calls the model exactly 25 times,
  and the lock of the map is absent when it ends.
\<close>

theorem loop_runs_25_rounds:
  "length (llm_requests (new_events w (snd (process_chat_interaction_task env c w)))) \<le> 25
   \<and> (always_invokes env \<and> \<not> cancelled c w \<and> fst (process_chat_interaction_task env c w) = None \<longrightarrow>
        length (llm_requests (new_events w (snd (process_chat_interaction_task env c w)))) = 25
        \<and> redis (snd (process_chat_interaction_task env c w)) (lock_key (map_id c)) = None)"
proof -
  obtain out1 w1 where fr: "for_range env c 25 (w\<lparr>limited_query := None\<rparr>) = (out1, w1)"
    by (cases "for_range env c 25 (w\<lparr>limited_query := None\<rparr>)")
  from for_range_summary_task[OF fr] obtain evs where
    e: "events w1 = events w @ evs" and len: "length (llm_requests evs) \<le> 25"
    by blast
  show ?thesis
  proof (cases out1)
    case (Some e1)
    with task_unfold[OF fr] have p: "process_chat_interaction_task env c w = (Some e1, w1)"
      by simp
    show ?thesis using len unfolding p by (simp add: new_events_append[OF e])
  next
    case None
    with task_unfold[OF fr] have p: "process_chat_interaction_task env c w = (None, redis_delete (lock_key (map_id c)) w1)"
      by simp
    have e': "events (redis_delete (lock_key (map_id c)) w1) = events w @ (evs @ [RedisDelete (lock_key (map_id c))])"
      using e by (simp add: redis_delete_def)
    have exact: "always_invokes env \<Longrightarrow> \<not> cancelled c w \<Longrightarrow> length (llm_requests evs) = 25"
      using for_range_always_invokes[OF _ _ fr[unfolded None]] e by auto
    note ne = new_events_append[OF e']
    have rd: "redis (redis_delete (lock_key (map_id c)) w1) (lock_key (map_id c)) = None"
      by (simp add: redis_delete_def)
    show ?thesis
      using len exact unfolding p
      by (auto simp: ne rd)
  qed
qed

theorem loop_runs_25_rounds_witness:
  "always_invokes always_zoom_env \<and> \<not> cancelled c_M1 w_start
   \<and> fst (process_chat_interaction_task always_zoom_env c_M1 w_start) = None
   \<and> length (llm_requests (new_events w_start (snd (process_chat_interaction_task always_zoom_env c_M1 w_start)))) = 25
   \<and> redis (snd (process_chat_interaction_task always_zoom_env c_M1 w_start)) (lock_key ''M1'') = None"
proof -
  have ai: "always_invokes always_zoom_env"
    by (simp add: always_invokes_def always_zoom_env_def example_env_def zoom_message_def invocations_def)
  have nc: "\<not> cancelled c_M1 w_start"
    by (simp add: cancelled_def w_start_def c_M1_def cancelled_key_def lock_key_def redis_truthy_def)
  have nc0: "\<not> cancelled c_M1 (w_start\<lparr>limited_query := None\<rparr>)"
    using nc by simp
  have "fst (for_range always_zoom_env c_M1 25 (w_start\<lparr>limited_query := None\<rparr>)) = None"
    by (rule always_zoom_for_range[OF _ _ _ nc0, of map_M1]) (simp_all add: w_start_def map_M1_def)
  then have ok: "fst (process_chat_interaction_task always_zoom_env c_M1 w_start) = None"
    by (cases "for_range always_zoom_env c_M1 25 (w_start\<lparr>limited_query := None\<rparr>)")
       (auto simp: process_chat_interaction_task_def split: option.splits)
  show ?thesis
    using loop_runs_25_rounds[of w_start always_zoom_env c_M1] ai nc ok
    by (simp add: c_M1_def)
qed

text \<open>
  Claim C6.  Every iteration of the loop reads the cancellation flag exactly once, and
  that read is the first thing it does.  When the flag is set, the iteration deletes
  it and breaks: the loop, whatever rounds it had left, ends there without an exception,
  and the task then deletes the lock, having called no model and no tool.  So once
  \<^verbatim>\<open>cancel_map_message\<close> has been accepted for the map, the rest of the loop issues no
  model call and appends nothing, and the flag is cleared.
\<close>

theorem cancellation_checked_once_at_top:
  "(iteration env c w = (ctl, w') \<longrightarrow>
      take (length (events w)) (events w') = events w
      \<and> take 1 (new_events w w') = [RedisGet (cancelled_key (map_id c))]
      \<and> count_list (new_events w w') (RedisGet (cancelled_key (map_id c))) = 1)
   \<and> (cancelled c w \<longrightarrow>
        iteration env c w =
          (Break, redis_delete (cancelled_key (map_id c))
                    (w\<lparr>events := events w @ [RedisGet (cancelled_key (map_id c))]\<rparr>))
        \<and> for_range env c (Suc n) w =
          (None, redis_delete (cancelled_key (map_id c))
                   (w\<lparr>events := events w @ [RedisGet (cancelled_key (map_id c))]\<rparr>))
        \<and> process_chat_interaction_task env c w =
          (None, redis_delete (lock_key (map_id c))
                   (redis_delete (cancelled_key (map_id c))
                      (w\<lparr>limited_query := None,
                         events := events w @ [RedisGet (cancelled_key (map_id c))]\<rparr>))))
   \<and> (authorised w (map_id c) session_user \<longrightarrow>
        (case cancel_map_message (map_id c) session_user w of
           (response, w1) \<Rightarrow>
             cancelled c w1
             \<and> fst (for_range env c n w1) = None
             \<and> llm_requests (new_events w1 (snd (for_range env c n w1))) = []
             \<and> map_messages (map_id c) (snd (for_range env c n w1)) = map_messages (map_id c) w1
             \<and> \<not> cancelled c (snd (for_range env c (Suc n) w1))))"
proof (intro conjI impI)
  let ?ck = "cancelled_key (map_id c)"
  assume it: "iteration env c w = (ctl, w')"
  from iteration_summary[OF it] obtain evs where
    e: "events w' = events w @ RedisGet ?ck # evs" and n: "RedisGet ?ck \<notin> set evs"
    by blast
  show "take (length (events w)) (events w') = events w" using e by simp
  show "take 1 (new_events w w') = [RedisGet ?ck]" using new_events_append[OF e] by simp
  show "count_list (new_events w w') (RedisGet ?ck) = 1"
    using new_events_append[OF e] n by simp
next
  assume "cancelled c w"
  then show "iteration env c w =
          (Break, redis_delete (cancelled_key (map_id c))
                    (w\<lparr>events := events w @ [RedisGet (cancelled_key (map_id c))]\<rparr>))"
    by (rule iteration_cancelled)
next
  assume "cancelled c w"
  then show "for_range env c (Suc n) w =
          (None, redis_delete (cancelled_key (map_id c))
                   (w\<lparr>events := events w @ [RedisGet (cancelled_key (map_id c))]\<rparr>))"
    by (simp add: iteration_cancelled)
next
  assume "cancelled c w"
  then show "process_chat_interaction_task env c w =
          (None, redis_delete (lock_key (map_id c))
                   (redis_delete (cancelled_key (map_id c))
                      (w\<lparr>limited_query := None,
                         events := events w @ [RedisGet (cancelled_key (map_id c))]\<rparr>)))"
    by (simp add: process_chat_interaction_task_def for_range_numeral iteration_cancelled)
next
  let ?ck = "cancelled_key (map_id c)"
  let ?w1 = "redis_set ?ck ''true'' 300 w"
  let ?w2 = "redis_delete ?ck (?w1\<lparr>events := events ?w1 @ [RedisGet ?ck]\<rparr>)"
  assume "authorised w (map_id c) session_user"
  from cancel_map_message_sets_flag[OF this] have
    cm: "cancel_map_message (map_id c) session_user w = (Inr [(''status'', PStr ''cancelled'')], ?w1)"
    and ca: "cancelled c ?w1"
    by simp_all
  have fr: "\<And>k. for_range env c (Suc k) ?w1 = (None, ?w2)"
    using ca by (simp add: iteration_cancelled)
  have nc2: "\<not> cancelled c ?w2"
    by (simp add: cancelled_def redis_delete_def redis_truthy_def)
  have a: "fst (for_range env c n ?w1) = None"
    by (cases n) (simp_all add: fr del: for_range.simps(2))
  have b: "llm_requests (new_events ?w1 (snd (for_range env c n ?w1))) = []"
    by (cases n) (simp_all add: fr new_events_def redis_delete_def del: for_range.simps(2))
  have d: "map_messages (map_id c) (snd (for_range env c n ?w1)) = map_messages (map_id c) ?w1"
    by (cases n) (simp_all add: fr redis_delete_def map_messages_def del: for_range.simps(2))
  show "case cancel_map_message (map_id c) session_user w of
           (response, w1) \<Rightarrow>
             cancelled c w1
             \<and> fst (for_range env c n w1) = None
             \<and> llm_requests (new_events w1 (snd (for_range env c n w1))) = []
             \<and> map_messages (map_id c) (snd (for_range env c n w1)) = map_messages (map_id c) w1
             \<and> \<not> cancelled c (snd (for_range env c (Suc n) w1))"
    unfolding cm using ca a b d nc2 by (simp add: fr del: for_range.simps(2))
qed

theorem cancellation_checked_once_at_top_witness:
  "authorised w_start ''M1'' ''u1''
   \<and> cancelled c_M1 (snd (cancel_map_message ''M1'' ''u1'' w_start))
   \<and> take 1 (new_events (snd (cancel_map_message ''M1'' ''u1'' w_start))
                (snd (iteration two_round_env c_M1 (snd (cancel_map_message ''M1'' ''u1'' w_start)))))
       = [RedisGet ''messages:M1:cancelled'']
   \<and> count_list (new_events (snd (cancel_map_message ''M1'' ''u1'' w_start))
                   (snd (iteration two_round_env c_M1 (snd (cancel_map_message ''M1'' ''u1'' w_start)))))
         (RedisGet ''messages:M1:cancelled'') = 1
   \<and> process_chat_interaction_task two_round_env c_M1 (snd (cancel_map_message ''M1'' ''u1'' w_start))
       = (None, w_start\<lparr>redis := Map.empty,
                        events := [RedisSet ''messages:M1:cancelled'' ''true'' 300,
                                   RedisGet ''messages:M1:cancelled'',
                                   RedisDelete ''messages:M1:cancelled'',
                                   RedisDelete ''map_lock:M1'']\<rparr>)"
proof -
  let ?wc = "redis_set ''messages:M1:cancelled'' ''true'' 300 w_start"
  have au: "authorised w_start (map_id c_M1) ''u1''"
    by (simp add: authorised_def w_start_def c_M1_def map_M1_def)
  have cm: "cancel_map_message ''M1'' ''u1'' w_start = (Inr [(''status'', PStr ''cancelled'')], ?wc)"
    by (simp add: cancel_map_message_def w_start_def map_M1_def cancelled_key_def)
  have ca: "cancelled c_M1 ?wc"
    by (simp add: cancelled_def c_M1_def cancelled_key_def redis_set_def redis_truthy_def)
  have it: "iteration two_round_env c_M1 ?wc
              = (fst (iteration two_round_env c_M1 ?wc), snd (iteration two_round_env c_M1 ?wc))"
    by simp
  show ?thesis
    using cancellation_checked_once_at_top[where env = two_round_env and c = c_M1
            and w = ?wc and n = 0 and session_user = "''u1''"
            and ctl = "fst (iteration two_round_env c_M1 ?wc)"
            and w' = "snd (iteration two_round_env c_M1 ?wc)"]
          au ca it
    unfolding cm
    by (simp add: c_M1_def redis_set_def redis_delete_def w_start_def cancelled_key_def lock_key_def
        fun_upd_twist)
qed

text \<open>
  Claim C7, as stated, fails twice.  The checks of the map and of its owner come before
  the check of the lock, so a caller who is not the owner is answered 401, not a
  conflict, on a map whose lock is held.  And on a map whose lock is not held, the
  owner's call sets the lock and then reads the description of the map: when that
  fails, the exception leaves the request, the lock stays set and no loop is started.
\<close>

theorem send_map_message_counterexample:
  "lock_held w_start ''M1''
   \<and> send_map_message (example_env example_loads (\<lambda>w ms ts. Inr []) ok_response) ''M1'' ''u2'' (PStr ''Hi'') w_start
       = (Inl (HTTPException 401), [], w_start)
   \<and> authorised w_idle ''M1'' ''u1'' \<and> \<not> lock_held w_idle ''M1''
   \<and> send_map_message no_description_env ''M1'' ''u1'' (PStr ''Hi'') w_idle
       = (Inl (OtherError ''connection refused''), [],
          w_idle\<lparr>redis := [''map_lock:M1'' \<mapsto> (''locked'', 60)],
                  events := [RedisGet ''map_lock:M1'', RedisSet ''map_lock:M1'' ''locked'' 60]\<rparr>)"
  by (simp add: lock_held_def authorised_def redis_truthy_def w_idle_def w_start_def send_map_message_def
      map_M1_def no_description_env_def example_env_def redis_get_def redis_set_def lock_key_def
      get_all_map_messages_def Let_def)

text \<open>
  Claim C7, amended.  A call on a map that is missing or soft-deleted is answered 404,
  and a call on a map that is found by a caller who is not its owner 401; either starts
  no loop and changes nothing, whether or not the lock is held.  The owner's call on a
  map whose lock is held is answered 409, starts no loop and changes nothing (the read
  of the lock is all that is recorded).  The owner's call on a map whose lock is not
  held sets the lock to \<^verbatim>\<open>locked\<close> with an expiry of 60 seconds; when the steps that
  follow, the description of the map and the system messages, do not raise, it answers
  \<^verbatim>\<open>processing_started\<close>, has appended the system messages and the user's message
  to the map's transcript and has queued exactly one background task for the map.
\<close>

theorem send_map_message_conflict_or_start:
  "case send_map_message env m session_user message w of
     (response, tasks, w') \<Rightarrow>
       (\<not> map_found w m \<longrightarrow> response = Inl (HTTPException 404) \<and> tasks = [] \<and> w' = w)
       \<and> (map_found w m \<and> \<not> authorised w m session_user \<longrightarrow>
            response = Inl (HTTPException 401) \<and> tasks = [] \<and> w' = w)
       \<and> (authorised w m session_user \<and> lock_held w m \<longrightarrow>
            response = Inl (HTTPException 409) \<and> tasks = []
            \<and> w' = w\<lparr>events := events w @ [RedisGet (lock_key m)]\<rparr>)
       \<and> (authorised w m session_user \<and> \<not> lock_held w m \<longrightarrow>
            redis w' = (redis w)(lock_key m \<mapsto> (''locked'', 60))
            \<and> (\<forall>description system_messages.
                  get_map_description env (redis_set (lock_key m) ''locked'' 60 (snd (redis_get (lock_key m) w))) m
                    = Inr description
                  \<and> get_system_messages env (map_messages m w) description = Inr system_messages \<longrightarrow>
                  (\<exists>r. response = Inr r \<and> status r = ''processing_started'')
                  \<and> tasks = [\<lparr>map_id = m, session_user_id = session_user, user_id = session_user\<rparr>]
                  \<and> map_messages m w' =
                      map_messages m w @ map SystemMessage system_messages @ [UserMessage message]))"
proof (cases "authorised w m session_user")
  case False
  then show ?thesis
    by (auto simp: authorised_def map_found_def send_map_message_def split: option.splits)
next
  case True
  then obtain map_result where mr: "user_mundiai_maps w m = Some map_result"
    "\<not> soft_deleted map_result" "session_user = owner_uuid map_result"
    by (auto simp: authorised_def split: option.splits)
  then have found: "map_found w m" by (simp add: map_found_def)
  show ?thesis
  proof (cases "lock_held w m")
    case held: True
    with True found mr show ?thesis
      by (simp add: send_map_message_def redis_get_def lock_held_def)
  next
    case free: False
    have fetch: "\<And>w'. user_mundiai_maps w' = user_mundiai_maps w \<Longrightarrow>
                   chat_completion_messages w' = chat_completion_messages w \<Longrightarrow>
                   get_all_map_messages m session_user w' = Inr (map_messages m w)"
      using mr by (simp add: get_all_map_messages_def map_messages_def)
    show ?thesis
      using True free found mr(1,2) mr(3)[symmetric]
      by (auto simp: send_map_message_def redis_get_def lock_held_def redis_set_def Let_def
          fold_system_messages map_messages_add_any fetch
          split: sum.splits)
  qed
qed

theorem send_map_message_conflict_or_start_witness:
  "\<not> map_found w_start ''M9''
   \<and> send_map_message describing_env ''M9'' ''u1'' (PStr ''Hi'') w_start = (Inl (HTTPException 404), [], w_start)
   \<and> map_found w_start ''M1'' \<and> \<not> authorised w_start ''M1'' ''u2''
   \<and> send_map_message describing_env ''M1'' ''u2'' (PStr ''Hi'') w_start = (Inl (HTTPException 401), [], w_start)
   \<and> authorised w_start ''M1'' ''u1'' \<and> lock_held w_start ''M1''
   \<and> (case send_map_message describing_env ''M1'' ''u1'' (PStr ''Hi'') w_start of
        (response, tasks, w') \<Rightarrow>
          response = Inl (HTTPException 409) \<and> tasks = []
          \<and> redis w' = redis w_start
          \<and> chat_completion_messages w' = chat_completion_messages w_start)
   \<and> authorised w_idle ''M1'' ''u1'' \<and> \<not> lock_held w_idle ''M1''
   \<and> (case send_map_message describing_env ''M1'' ''u1'' (PStr ''Hi'') w_idle of
        (response, tasks, w') \<Rightarrow>
          (\<exists>r. response = Inr r \<and> status r = ''processing_started'')
          \<and> redis w' (lock_key ''M1'') = Some (''locked'', 60) \<and> tasks = [c_M1]
          \<and> map_messages ''M1'' w' =
              [UserMessage (PStr ''Hello''), SystemMessage (PStr ''An empty map''), UserMessage (PStr ''Hi'')])"
  using send_map_message_conflict_or_start[where env = describing_env
          and m = "''M9''" and session_user = "''u1''" and message = "PStr ''Hi''" and w = w_start]
        send_map_message_conflict_or_start[where env = describing_env
          and m = "''M1''" and session_user = "''u2''" and message = "PStr ''Hi''" and w = w_start]
        send_map_message_conflict_or_start[where env = describing_env
          and m = "''M1''" and session_user = "''u1''" and message = "PStr ''Hi''" and w = w_start]
        send_map_message_conflict_or_start[where env = describing_env
          and m = "''M1''" and session_user = "''u1''" and message = "PStr ''Hi''" and w = w_idle]
  by (simp add: authorised_def map_found_def lock_held_def redis_truthy_def w_idle_def example_defs lock_key_def
      describing_env_def
      send_map_message_def redis_get_def redis_set_def get_all_map_messages_def map_messages_def
      add_chat_completion_message_def Let_def split: prod.splits)

text \<open>
  Claim C8.  A geoprocessing invocation whose request was prepared and which the remote
  service answered always returns a result, with status \<^verbatim>\<open>success\<close> or
  \<^verbatim>\<open>error\<close>.  When the answer's status is not 200 or a declared output is not
  confirmed uploaded, the result is an error and the state is untouched; every error
  result leaves the layer table and the maps as they were; a success result means the
  service answered 200 with every output confirmed, and exactly one layer row was
  stored per declared output (the source declares one, \<^verbatim>\<open>OUTPUT\<close>), by the ingestion
  used for uploads, and is listed under \<^verbatim>\<open>created_layers\<close>.  An output is confirmed
  when the body of the answer holds, under \<^verbatim>\<open>upload_results\<close> and the output's name,
  an object with a true \<^verbatim>\<open>uploaded\<close>; \<open>all_uploaded\<close> reads this off the answer and
  not off the handler's own check.
\<close>

theorem geoprocessing_creates_layers_only_on_success:
  assumes args: "json_loads env (tc_arguments tc) = Some (PDict d)"
    and tool: "find (\<lambda>tool. fst tool = tc_name tc) (get_tools env) = Some tool_def"
    and prep: "prepare_request env c (replace_char (CHR ''_'') (CHR '':'') (fst tool_def)) (snd tool_def)
                 (dict_set (dict_set d ''map_id'' (PStr (map_id c))) ''user_uuid'' (PStr (user_id c))) w
               = Inr (request, outputs)"
    and resp: "qgis_post env w request = Inr response"
  shows "case run_geoprocessing_tool env c tc w of
           (res, w') \<Rightarrow>
             (case res of
                Inl e \<Rightarrow> False
              | Inr tool_result \<Rightarrow>
                  (status_of tool_result = PStr ''success'' \<or> status_of tool_result = PStr ''error'')
                  \<and> (status_code response \<noteq> 200 \<or> \<not> all_uploaded response (map fst outputs) \<longrightarrow>
                        status_of tool_result = PStr ''error'' \<and> w' = w)
                  \<and> (status_of tool_result = PStr ''error'' \<longrightarrow>
                        map_layers w' = map_layers w \<and> user_mundiai_maps w' = user_mundiai_maps w)
                  \<and> (status_of tool_result = PStr ''success'' \<longrightarrow>
                        status_code response = 200 \<and> all_uploaded response (map fst outputs)
                        \<and> length (map_layers w') = length (map_layers w) + length outputs
                        \<and> (\<exists>info row. outputs = [(''OUTPUT'', info)]
                              \<and> map_layers w' = map_layers w @ [row]
                              \<and> dict_get tool_result ''created_layers''
                                  = PList [created_entry ''OUTPUT'' info (layer_id row)])))"
proof -
  from prepare_request_outputs[OF prep] obtain info where outs: "outputs = [(''OUTPUT'', info)]"
    by blast
  let ?alg = "replace_char (CHR ''_'') (CHR '':'') (fst tool_def)"
  obtain res w' where ar: "after_response env c (tc_name tc) ?alg outputs response w = (res, w')"
    by (cases "after_response env c (tc_name tc) ?alg outputs response w")
  note run = run_geoprocessing_tool_unfold[OF args tool prep resp ar]
  show ?thesis
  proof (cases "status_code response = 200 \<and> all_uploaded response (map fst outputs)")
    case False
    from after_response_not_confirmed[OF False ar] have "w' = w"
      and "case res of Inl e \<Rightarrow> True | Inr r \<Rightarrow> status_of r = PStr ''error''"
      by simp_all
    then show ?thesis
      using False unfolding run by (cases res) auto
  next
    case True
    then have sc: "status_code response = 200" and up: "all_uploaded response [''OUTPUT'']"
      by (simp_all add: outs)
    from after_response_confirmed[OF sc up ar[unfolded outs]] show ?thesis
      using True unfolding run outs
      by (cases res) auto
  qed
qed

theorem geoprocessing_creates_layers_only_on_success_witness:
  "(case run_geoprocessing_tool (example_env example_loads (\<lambda>w ms ts. Inr []) ok_response) c_M1 buffer_call w_start of
      (res, w') \<Rightarrow>
        (case res of
           Inl e \<Rightarrow> False
         | Inr tool_result \<Rightarrow>
             status_of tool_result = PStr ''success'' \<and> map_layers w' = [layer_A, layer_N]))
   \<and> (case run_geoprocessing_tool (example_env example_loads (\<lambda>w ms ts. Inr []) failed_response) c_M1 buffer_call w_start of
      (res, w') \<Rightarrow>
        (case res of
           Inl e \<Rightarrow> False
         | Inr tool_result \<Rightarrow> status_of tool_result = PStr ''error'' \<and> w' = w_start))
   \<and> status_code unconfirmed_response = 200 \<and> \<not> all_uploaded unconfirmed_response [''OUTPUT'']
   \<and> (case run_geoprocessing_tool (example_env example_loads (\<lambda>w ms ts. Inr []) unconfirmed_response) c_M1 buffer_call w_start of
      (res, w') \<Rightarrow>
        (case res of
           Inl e \<Rightarrow> False
         | Inr tool_result \<Rightarrow> status_of tool_result = PStr ''error'' \<and> w' = w_start))"
proof -
  let ?args = "[(''INPUT'', PStr ''LAAAAAAAAAAA''), (''DISTANCE'', PNum 10),
                (''OUTPUT'', PStr ''TEMPORARY_OUTPUT'')]"
  let ?request = "\<lparr>algorithm_id = ''native:buffer'',
                    qgis_inputs = [(''DISTANCE'', PFmt ''{}'' [PNum 10]), (''map_id'', PFmt ''{}'' [PStr ''M1'']),
                                   (''user_uuid'', PFmt ''{}'' [PStr ''u1''])],
                    output_presigned_put_urls = [(''OUTPUT'', ''https://storage/uploads/u1/P1/L000000000000.fgb'')],
                    input_urls = [(''INPUT'', ''https://storage/uploads/u1/P1/LAAAAAAAAAAA.fgb'')]\<rparr>"
  let ?outputs = "[(''OUTPUT'', \<lparr>out_layer_id = ''L000000000000'', out_s3_key = ''uploads/u1/P1/L000000000000.fgb'',
                                  out_layer_type = ''vector'', out_file_extension = ''.fgb''\<rparr>)]"
  have ok: "all_uploaded ok_response (map fst ?outputs)"
    by (simp add: all_uploaded_def upload_confirmed_def ok_response_def)
  have bad: "status_code failed_response \<noteq> 200"
    by (simp add: failed_response_def)
  have unconfirmed: "status_code unconfirmed_response = 200"
      "\<not> all_uploaded unconfirmed_response (map fst ?outputs)"
    by (simp_all add: all_uploaded_def upload_confirmed_def unconfirmed_response_def)
  show ?thesis
    using
      geoprocessing_creates_layers_only_on_success[of "example_env example_loads (\<lambda>w ms ts. Inr []) ok_response"
        buffer_call ?args "(''native_buffer'', ''Buffer a vector layer by a distance'')" c_M1 w_start
        ?request ?outputs ok_response]
      geoprocessing_creates_layers_only_on_success[of "example_env example_loads (\<lambda>w ms ts. Inr []) failed_response"
        buffer_call ?args "(''native_buffer'', ''Buffer a vector layer by a distance'')" c_M1 w_start
        ?request ?outputs failed_response]
      geoprocessing_creates_layers_only_on_success[of "example_env example_loads (\<lambda>w ms ts. Inr []) unconfirmed_response"
        buffer_call ?args "(''native_buffer'', ''Buffer a vector layer by a distance'')" c_M1 w_start
        ?request ?outputs unconfirmed_response]
      ok bad unconfirmed
    by (simp add: buffer_call_def example_loads_def example_defs python_defs geo_defs Let_def
        status_of_def failed_response_def split: prod.splits sum.splits)
qed



text \<open>
  Claim C10.  An \<^verbatim>\<open>add_layer_to_map\<close> invocation that names a layer which exists and
  is owned by the caller, with a \<^verbatim>\<open>new_name\<close> that binds as text (a string, or
  absent), is answered without an exception, and every stored row of that layer then
  carries the supplied name; the rows of other layers are untouched.  This holds also
  when the layer is already attached, in which case the maps table is left as it was:
  the repeated attach renames the layer.
\<close>

theorem add_layer_to_map_always_renames:
  assumes name: "tc_name tc = ''add_layer_to_map''"
    and args: "json_loads env (tc_arguments tc) = Some (PDict args)"
    and lid: "dict_get args ''layer_id'' = PStr l"
    and owned: "layer_exists w (Some l) (user_id c)"
    and new_name: "as_text (dict_get args ''new_name'') = Inr nm"
  shows "case dispatch env c tc w of
           (out, w') \<Rightarrow>
             out = None
             \<and> map_layers w' = map (\<lambda>r. if layer_id r = l then r\<lparr>layer_name := nm\<rparr> else r) (map_layers w)
             \<and> list_all (\<lambda>r. layer_name r = nm) (filter (\<lambda>r. layer_id r = l) (map_layers w'))
             \<and> list_ex (\<lambda>r. layer_id r = l \<and> layer_name r = nm) (map_layers w')
             \<and> (l \<in> set (attached_layers w (map_id c)) \<longrightarrow> user_mundiai_maps w' = user_mundiai_maps w)"
proof -
  let ?w0 = "w\<lparr>events := events w @ [ToolCallStarted (tc_name tc)]\<rparr>"
  let ?w1 = "update_layer_name nm l ?w0"
  let ?w2 = "append_layer_to_map l (map_id c) ?w1"
  let ?r = "[(''status'', PFmt ''Layer '{}' (ID: {}) added to map '{}'.''
                 [dict_get args ''new_name'', PStr l, PStr (map_id c)]),
             (''layer_id'', PStr l), (''name'', dict_get args ''new_name'')]"
  have d: "dispatch env c tc w = (None, reply c tc ?r ?w2)"
    using name args lid owned new_name
    by (simp add: dispatch_def add_layer_to_map_def as_dict_def as_text_def Let_def)
  have m: "map_layers (reply c tc ?r ?w2) =
             map (\<lambda>r. if layer_id r = l then r\<lparr>layer_name := nm\<rparr> else r) (map_layers w)"
    by (simp add: update_layer_name_def)
  have a: "list_all (\<lambda>r. layer_name r = nm) (filter (\<lambda>r. layer_id r = l) (map_layers (reply c tc ?r ?w2)))"
    unfolding m by (rule renamed_all)
  have e: "list_ex (\<lambda>r. layer_id r = l \<and> layer_name r = nm) (map_layers (reply c tc ?r ?w2))"
    using owned unfolding m layer_exists_def
    by (simp add: renamed_ex)
  have u: "l \<in> set (attached_layers w (map_id c)) \<Longrightarrow>
           user_mundiai_maps (reply c tc ?r ?w2) = user_mundiai_maps w"
    by (simp add: append_layer_to_map_attached)
  show ?thesis using d m a e u by simp
qed



theorem add_layer_to_map_always_renames_witness:
  "(case dispatch (example_env example_loads (\<lambda>w ms ts. Inr []) ok_response) c_M1 rename_call w_start of
      (out, w') \<Rightarrow>
        out = None
        \<and> map_layers w' = [layer_A\<lparr>layer_name := Some ''Roads''\<rparr>]
        \<and> user_mundiai_maps w' = user_mundiai_maps w_start)
   \<and> ''LAAAAAAAAAAA'' \<in> set (attached_layers w_start ''M1'')"
  using add_layer_to_map_always_renames[of rename_call "example_env example_loads (\<lambda>w ms ts. Inr []) ok_response"
      "[(''layer_id'', PStr ''LAAAAAAAAAAA''), (''new_name'', PStr ''Roads'')]" "''LAAAAAAAAAAA''"
      w_start c_M1 "Some ''Roads''"]
  by (simp add: rename_call_def example_env_def example_loads_def dict_get_def layer_exists_def w_start_def
      layer_A_def c_M1_def as_text_def attached_layers_def map_M1_def split: prod.splits)

end
